theory Spec2Isabelle
  imports
    Complex_Main
    "HOL-Library.Char_ord"
    "HOL-Library.List_Lexorder"
    "HOL-Library.Product_Lexorder"
    "HOL-Library.Sublist"
begin

section \<open>Snapshot tables\<close>

text \<open>
  The development follows \<^verbatim>\<open>xantaken_diff.py\<close> (the snapshot diff engine) and the
  request headers of \<^verbatim>\<open>xans.py\<close>.

  A data frame is a list of column names and a list of rows. A cell of a frame that
  \<^verbatim>\<open>pd.read_csv\<close> returns is null (\<^verbatim>\<open>NaN\<close>), a string, an integer or a float.
  A float is a rational number or one of the two infinities; rounding is not part of the
  model, and \<^verbatim>\<open>NaN\<close> is the null value, as in pandas. The optional metadata columns are
  typed as the exporter writes them (name and position strings, level an integer), a
  null cell being \<open>None\<close>. A field of a row means something only when its column is
  listed in the frame's columns.
\<close>

datatype f64 = Fin rat | PInf | NInf

datatype cell = NaN | StrV string | IntV int | FloatV f64

datatype py_error = ValueError string | KeyError string | TypeError | ParseError

record date =
  year :: nat
  month :: nat
  day :: nat

text \<open>
  What the date resolver hands back when it finds something: a \<^verbatim>\<open>datetime.date\<close>, or
  the not-a-time value \<^verbatim>\<open>NaT\<close> of pandas, which \<^verbatim>\<open>pd.to_datetime(v).date()\<close> returns
  without raising for a cell such as the text \<^verbatim>\<open>NaT\<close>.
\<close>

datatype resolved = Date date | NaT

record csv_row =
  csv_user_id :: cell
  csv_name :: "string option"
  csv_position :: "string option"
  csv_level :: "int option"
  csv_xantaken :: cell
  csv_export_date :: cell

record csv_frame =
  csv_columns :: "string list"
  csv_rows :: "csv_row list"

text \<open>A snapshot after \<^verbatim>\<open>_load_snapshot\<close>: the identifier is a string, the stat a number or null.\<close>

record snap_row =
  user_id :: string
  name :: "string option"
  position :: "string option"
  level :: "int option"
  xantaken :: "f64 option"
  export_date :: cell

record frame =
  columns :: "string list"
  rows :: "snap_row list"

text \<open>
  The library functions whose behaviour on text is not fixed by the repository are
  parameters: \<^verbatim>\<open>pd.to_numeric\<close> on a string cell (\<open>None\<close> when it does not parse, which
  \<^verbatim>\<open>errors="coerce"\<close> turns into null), \<^verbatim>\<open>str\<close> of a float, and \<^verbatim>\<open>pd.to_datetime(v).date()\<close>
  (\<open>Inl\<close> when it raises, otherwise a date or \<^verbatim>\<open>NaT\<close>).
\<close>

record pandas_lib =
  to_numeric_str :: "string \<Rightarrow> f64 option"
  str_float :: "f64 \<Rightarrow> string"
  to_datetime :: "cell \<Rightarrow> py_error + resolved"

subsection \<open>Strings\<close>

fun join_str :: "string \<Rightarrow> string list \<Rightarrow> string" where
  "join_str sep [] = []"
| "join_str sep [x] = x"
| "join_str sep (x # y # ys) = x @ sep @ join_str sep (y # ys)"

definition digit_char :: "nat \<Rightarrow> char" where
  "digit_char n = char_of (48 + n)"

function str_nat :: "nat \<Rightarrow> string" where
  "str_nat n = (if n < 10 then [digit_char n] else str_nat (n div 10) @ [digit_char (n mod 10)])"
  by pat_completeness auto
termination
  by (relation "measure id") auto

declare str_nat.simps [simp del]

definition str_int :: "int \<Rightarrow> string" where
  "str_int i = (if i < 0 then CHR ''-'' # str_nat (nat (- i)) else str_nat (nat i))"

definition is_digit :: "char \<Rightarrow> bool" where
  "is_digit c = (CHR ''0'' \<le> c \<and> c \<le> CHR ''9'')"

definition digit_val :: "char \<Rightarrow> nat" where
  "digit_val c = of_char c - 48"

subsection \<open>Loading a snapshot\<close>

text \<open>
  \<^verbatim>\<open>df["user_id"].astype(str)\<close> and \<^verbatim>\<open>pd.to_numeric(df["xantaken"], errors="coerce")\<close>,
  cell by cell.
\<close>

fun astype_str :: "pandas_lib \<Rightarrow> cell \<Rightarrow> string" where
  "astype_str L NaN = ''nan''"
| "astype_str L (StrV s) = s"
| "astype_str L (IntV i) = str_int i"
| "astype_str L (FloatV x) = str_float L x"

fun to_numeric :: "pandas_lib \<Rightarrow> cell \<Rightarrow> f64 option" where
  "to_numeric L NaN = None"
| "to_numeric L (StrV s) = to_numeric_str L s"
| "to_numeric L (IntV i) = Some (Fin (of_int i))"
| "to_numeric L (FloatV x) = Some x"

definition required :: "string list" where
  "required = [''user_id'', ''xantaken'']"

text \<open>\<^verbatim>\<open>sorted(required - set(df.columns))\<close>: \<open>required\<close> is listed in sorted order.\<close>

definition missing_columns :: "csv_frame \<Rightarrow> string list" where
  "missing_columns df = filter (\<lambda>c. c \<notin> set (csv_columns df)) required"

definition missing_message :: "string \<Rightarrow> csv_frame \<Rightarrow> string" where
  "missing_message path df =
     path @ '' is missing required column(s): '' @ join_str '', '' (missing_columns df)
       @ ''. Found columns: '' @ join_str '', '' (csv_columns df)"

definition normalize_row :: "pandas_lib \<Rightarrow> csv_row \<Rightarrow> snap_row" where
  "normalize_row L r =
     \<lparr>user_id = astype_str L (csv_user_id r), name = csv_name r, position = csv_position r,
      level = csv_level r, xantaken = to_numeric L (csv_xantaken r),
      export_date = csv_export_date r\<rparr>"

text \<open>
  \<^verbatim>\<open>_load_snapshot\<close>, from the frame \<open>df\<close> that \<^verbatim>\<open>pd.read_csv(path)\<close> returned; \<open>path\<close> is
  the path as the message prints it.
\<close>

definition load_snapshot :: "pandas_lib \<Rightarrow> string \<Rightarrow> csv_frame \<Rightarrow> py_error + frame" where
  "load_snapshot L path df =
     (if missing_columns df \<noteq> [] then Inl (ValueError (missing_message path df))
      else Inr \<lparr>columns = csv_columns df, rows = map (normalize_row L) (csv_rows df)\<rparr>)"

subsection \<open>Calendar dates\<close>

text \<open>
  \<^verbatim>\<open>datetime.date\<close>: dates compare as (year, month, day), and the days of a difference
  of two dates are the difference of their proleptic Gregorian ordinals.
\<close>

definition is_leap :: "nat \<Rightarrow> bool" where
  "is_leap y = (y mod 4 = 0 \<and> (y mod 100 \<noteq> 0 \<or> y mod 400 = 0))"

definition days_in_month :: "nat \<Rightarrow> nat \<Rightarrow> nat" where
  "days_in_month y m =
     (if m = 2 then (if is_leap y then 29 else 28)
      else if m \<in> {4, 6, 9, 11} then 30 else 31)"

definition days_before_year :: "nat \<Rightarrow> int" where
  "days_before_year y =
     (let z = int y - 1 in z * 365 + z div 4 - z div 100 + z div 400)"

definition days_before_month :: "nat \<Rightarrow> nat \<Rightarrow> int" where
  "days_before_month y m =
     int (sum_list (map (days_in_month y) [1..<m]))"

definition toordinal :: "date \<Rightarrow> int" where
  "toordinal d = days_before_year (year d) + days_before_month (year d) (month d) + int (day d)"

definition date_le :: "date \<Rightarrow> date \<Rightarrow> bool" where
  "date_le a b =
     (year a < year b \<or> (year a = year b \<and>
       (month a < month b \<or> (month a = month b \<and> day a \<le> day b))))"

text \<open>
  \<^verbatim>\<open>DATE_RE = re.compile(r"(\d{4}-\d{2}-\d{2})")\<close> and its \<^verbatim>\<open>search\<close>: the leftmost
  place where four digits, a dash, two digits, a dash and two digits stand.
\<close>

definition date_shape :: "string \<Rightarrow> bool" where
  "date_shape s =
     (list_all (\<lambda>i. is_digit (s ! i)) [0, 1, 2, 3, 5, 6, 8, 9]
      \<and> s ! 4 = CHR ''-'' \<and> s ! 7 = CHR ''-'')"

definition match_date :: "string \<Rightarrow> string option" where
  "match_date s = (if 10 \<le> length s \<and> date_shape (take 10 s) then Some (take 10 s) else None)"

fun date_re_search :: "string \<Rightarrow> string option" where
  "date_re_search [] = None"
| "date_re_search (c # cs) =
     (case match_date (c # cs) of Some g \<Rightarrow> Some g | None \<Rightarrow> date_re_search cs)"

definition digits_val :: "string \<Rightarrow> nat" where
  "digits_val s = foldl (\<lambda>acc c. 10 * acc + digit_val c) 0 s"

text \<open>\<^verbatim>\<open>date.fromisoformat\<close> on a string of the shape the pattern matched.\<close>

definition fromisoformat :: "string \<Rightarrow> py_error + date" where
  "fromisoformat s =
     (if \<not> (length s = 10 \<and> date_shape s) then Inl (ValueError s)
      else
        let y = digits_val (take 4 s);
            m = digits_val (take 2 (drop 5 s));
            d = digits_val (take 2 (drop 8 s))
        in if 1 \<le> y \<and> y \<le> 9999 \<and> 1 \<le> m \<and> m \<le> 12 \<and> 1 \<le> d \<and> d \<le> days_in_month y m
           then Inr \<lparr>year = y, month = m, day = d\<rparr>
           else Inl (ValueError s))"

text \<open>\<^verbatim>\<open>path.name\<close>: the last component of the path.\<close>

definition path_name :: "string \<Rightarrow> string" where
  "path_name p = rev (takeWhile (\<lambda>c. c \<noteq> CHR ''/'') (rev p))"

subsection \<open>The reference date of a snapshot\<close>

text \<open>
  \<^verbatim>\<open>try: return X  except Exception: pass\<close> followed by the rest of the function: the
  value of \<open>X\<close> when it does not raise, the rest otherwise.
\<close>

definition try_return :: "(py_error + 'a) \<Rightarrow> (py_error + 'a option) \<Rightarrow> py_error + 'a option" where
  "try_return body rest = (case body of Inr v \<Rightarrow> Inr (Some v) | Inl e \<Rightarrow> rest)"

definition dropna :: "cell list \<Rightarrow> cell list" where
  "dropna cs = filter (\<lambda>c. c \<noteq> NaN) cs"

definition date_from_filename :: "string \<Rightarrow> py_error + resolved option" where
  "date_from_filename path =
     (case date_re_search (path_name path) of
        Some g \<Rightarrow> try_return (map_sum id Date (fromisoformat g)) (Inr None)
      | None \<Rightarrow> Inr None)"

text \<open>
  The first \<^verbatim>\<open>return\<close> hands back whatever \<^verbatim>\<open>pd.to_datetime(...).date()\<close> gives when it
  does not raise, \<^verbatim>\<open>NaT\<close> included.
\<close>

definition parse_date_from_df_or_filename ::
  "pandas_lib \<Rightarrow> frame \<Rightarrow> string \<Rightarrow> py_error + resolved option" where
  "parse_date_from_df_or_filename L df path =
     (if ''export_date'' \<in> set (columns df) then
        (case dropna (map export_date (rows df)) of
           v # _ \<Rightarrow> try_return (to_datetime L v) (date_from_filename path)
         | [] \<Rightarrow> date_from_filename path)
      else date_from_filename path)"

section \<open>The diff engine\<close>

subsection \<open>Reference dates of the two snapshots\<close>

text \<open>
  Lines 92 to 97 of \<^verbatim>\<open>build_report\<close>. A date and \<^verbatim>\<open>NaT\<close> are both true, so
  \<^verbatim>\<open>date_a and date_b\<close> holds when both are not \<^verbatim>\<open>None\<close>. Two dates compare as dates;
  \<^verbatim>\<open>NaT <= NaT\<close> is false; comparing \<^verbatim>\<open>NaT\<close> with a date raises \<^verbatim>\<open>TypeError\<close>. The
  days of a difference with \<^verbatim>\<open>NaT\<close> are \<^verbatim>\<open>nan\<close>.
\<close>

datatype day_count = Days int | DaysNaN

fun resolved_le :: "resolved \<Rightarrow> resolved \<Rightarrow> py_error + bool" where
  "resolved_le (Date x) (Date y) = Inr (date_le x y)"
| "resolved_le NaT NaT = Inr False"
| "resolved_le NaT (Date y) = Inl TypeError"
| "resolved_le (Date x) NaT = Inl TypeError"

fun abs_days_between :: "resolved \<Rightarrow> resolved \<Rightarrow> day_count" where
  "abs_days_between (Date x) (Date y) = Days \<bar>toordinal y - toordinal x\<bar>"
| "abs_days_between NaT b = DaysNaN"
| "abs_days_between a NaT = DaysNaN"

definition date_span ::
  "resolved option \<Rightarrow> resolved option
     \<Rightarrow> py_error + (resolved option \<times> resolved option \<times> day_count option)" where
  "date_span date_a date_b =
     (case (date_a, date_b) of
        (Some a, Some b) \<Rightarrow>
          (case resolved_le a b of
             Inl e \<Rightarrow> Inl e
           | Inr le \<Rightarrow>
               Inr (if le then (Some a, Some b, Some (abs_days_between a b))
                    else (Some b, Some a, Some (abs_days_between a b))))
      | _ \<Rightarrow> Inr (date_a, date_b, None))"

subsection \<open>The outer join\<close>

text \<open>
  A row of \<^verbatim>\<open>merged\<close>. Its columns are \<^verbatim>\<open>user_id\<close>, the renamed columns of both sides,
  the combined metadata columns \<^verbatim>\<open>name\<close>, \<^verbatim>\<open>position\<close> and \<^verbatim>\<open>level\<close> (here with the
  prefix \<open>r_\<close>), and the derived columns.
\<close>

record report_row =
  r_user_id :: string
  xantaken_a :: "f64 option"
  name_a :: "string option"
  position_a :: "string option"
  level_a :: "int option"
  xantaken_b :: "f64 option"
  name_b :: "string option"
  position_b :: "string option"
  level_b :: "int option"
  r_name :: "string option"
  r_position :: "string option"
  r_level :: "int option"
  diff_xantaken :: "f64 option"
  xantaken_min :: "f64 option"
  xantaken_max :: "f64 option"
  avg_xantaken_per_day :: "f64 option"
  status :: string

record report =
  report_columns :: "string list"
  report_rows :: "report_row list"

definition meta_cols :: "frame \<Rightarrow> frame \<Rightarrow> string list" where
  "meta_cols df_a df_b =
     filter (\<lambda>c. c \<in> set (columns df_a) \<or> c \<in> set (columns df_b))
       [''name'', ''position'', ''level'']"

text \<open>
  \<^verbatim>\<open>a.merge(b, on="user_id", how="outer")\<close>: the keys of both sides in sorted order;
  for a key, every row of the left side that has it paired with every row of the right
  side that has it, and a row of one side alone when the other side lacks the key.
\<close>

definition merge_outer :: "frame \<Rightarrow> frame \<Rightarrow> (string \<times> snap_row option \<times> snap_row option) list" where
  "merge_outer a b =
     concat (map (\<lambda>k.
        let ra = filter (\<lambda>r. user_id r = k) (rows a);
            rb = filter (\<lambda>r. user_id r = k) (rows b)
        in if rb = [] then map (\<lambda>x. (k, Some x, None)) ra
           else if ra = [] then map (\<lambda>y. (k, None, Some y)) rb
           else concat (map (\<lambda>x. map (\<lambda>y. (k, Some x, Some y)) rb) ra))
       (sort (remdups (map user_id (rows a) @ map user_id (rows b)))))"

text \<open>
  The value of column \<open>c\<close> of one side in a joined row: null when the key is not on
  that side, or when the side has no such column.
\<close>

definition side_value :: "frame \<Rightarrow> string \<Rightarrow> (snap_row \<Rightarrow> 'a option) \<Rightarrow> snap_row option \<Rightarrow> 'a option" where
  "side_value df c f x =
     (case x of None \<Rightarrow> None | Some r \<Rightarrow> if c \<in> set (columns df) then f r else None)"

text \<open>Lines 114 to 121: the second file's metadata first, the first file's as fallback.\<close>

definition combine_meta :: "frame \<Rightarrow> frame \<Rightarrow> string \<Rightarrow> 'a option \<Rightarrow> 'a option \<Rightarrow> 'a option" where
  "combine_meta df_a df_b c va vb =
     (if c \<in> set (columns df_b) \<and> c \<in> set (columns df_a)
      then (case vb of Some v \<Rightarrow> Some v | None \<Rightarrow> va)
      else if c \<in> set (columns df_b) then vb
      else if c \<in> set (columns df_a) then va
      else None)"

subsection \<open>Derived columns\<close>

text \<open>
  Float arithmetic on values that are not null: a difference of two equal infinities is
  \<^verbatim>\<open>NaN\<close>, that is, null; a quotient by a whole number that is not zero keeps an infinity,
  with the sign of the divisor.
\<close>

fun f64_sub :: "f64 \<Rightarrow> f64 \<Rightarrow> f64 option" where
  "f64_sub (Fin u) (Fin v) = Some (Fin (u - v))"
| "f64_sub (Fin u) PInf = Some NInf"
| "f64_sub (Fin u) NInf = Some PInf"
| "f64_sub PInf (Fin v) = Some PInf"
| "f64_sub PInf NInf = Some PInf"
| "f64_sub PInf PInf = None"
| "f64_sub NInf (Fin v) = Some NInf"
| "f64_sub NInf PInf = Some NInf"
| "f64_sub NInf NInf = None"

fun f64_le :: "f64 \<Rightarrow> f64 \<Rightarrow> bool" where
  "f64_le NInf y = True"
| "f64_le (Fin u) NInf = False"
| "f64_le (Fin u) (Fin v) = (u \<le> v)"
| "f64_le (Fin u) PInf = True"
| "f64_le PInf PInf = True"
| "f64_le PInf y = False"

definition f64_min :: "f64 \<Rightarrow> f64 \<Rightarrow> f64" where
  "f64_min x y = (if f64_le x y then x else y)"

definition f64_max :: "f64 \<Rightarrow> f64 \<Rightarrow> f64" where
  "f64_max x y = (if f64_le x y then y else x)"

fun f64_div_int :: "f64 \<Rightarrow> int \<Rightarrow> f64" where
  "f64_div_int (Fin u) n = Fin (u / of_int n)"
| "f64_div_int PInf n = (if 0 < n then PInf else NInf)"
| "f64_div_int NInf n = (if 0 < n then NInf else PInf)"

text \<open>Subtraction and division of columns give null where an operand is null.\<close>

definition sub_na :: "f64 option \<Rightarrow> f64 option \<Rightarrow> f64 option" where
  "sub_na x y = (case (x, y) of (Some u, Some v) \<Rightarrow> f64_sub u v | _ \<Rightarrow> None)"

text \<open>
  \<^verbatim>\<open>DataFrame.min(axis=1)\<close> and \<^verbatim>\<open>DataFrame.max(axis=1)\<close> are called with their default
  \<^verbatim>\<open>skipna=True\<close>: null values are left out, and the result is null only when every
  value of the row is null.
\<close>

definition min_skipna :: "f64 option \<Rightarrow> f64 option \<Rightarrow> f64 option" where
  "min_skipna x y =
     (case (x, y) of
        (Some u, Some v) \<Rightarrow> Some (f64_min u v)
      | (Some u, None) \<Rightarrow> Some u
      | (None, Some v) \<Rightarrow> Some v
      | (None, None) \<Rightarrow> None)"

definition max_skipna :: "f64 option \<Rightarrow> f64 option \<Rightarrow> f64 option" where
  "max_skipna x y =
     (case (x, y) of
        (Some u, Some v) \<Rightarrow> Some (f64_max u v)
      | (Some u, None) \<Rightarrow> Some u
      | (None, Some v) \<Rightarrow> Some v
      | (None, None) \<Rightarrow> None)"

text \<open>
  Lines 127 to 130. When the days between are \<^verbatim>\<open>nan\<close> the test of line 127 is false and
  the quotient by \<^verbatim>\<open>nan\<close> is null.
\<close>

definition avg_per_day :: "day_count option \<Rightarrow> f64 option \<Rightarrow> f64 option \<Rightarrow> f64 option" where
  "avg_per_day days_between mx mn =
     (case days_between of
        None \<Rightarrow> None
      | Some DaysNaN \<Rightarrow> None
      | Some (Days n) \<Rightarrow>
          if n = 0 then None
          else (case sub_na mx mn of Some d \<Rightarrow> Some (f64_div_int d n) | None \<Rightarrow> None))"

text \<open>A comparison with a null value is false.\<close>

fun f64_lt_rat :: "f64 \<Rightarrow> rat \<Rightarrow> bool" where
  "f64_lt_rat (Fin v) c = (v < c)"
| "f64_lt_rat NInf c = True"
| "f64_lt_rat PInf c = False"

fun f64_ge_rat :: "f64 \<Rightarrow> rat \<Rightarrow> bool" where
  "f64_ge_rat (Fin v) c = (v \<ge> c)"
| "f64_ge_rat NInf c = False"
| "f64_ge_rat PInf c = True"

definition lt_na :: "f64 option \<Rightarrow> rat \<Rightarrow> bool" where
  "lt_na x c = (case x of Some v \<Rightarrow> f64_lt_rat v c | None \<Rightarrow> False)"

definition ge_na :: "f64 option \<Rightarrow> rat \<Rightarrow> bool" where
  "ge_na x c = (case x of Some v \<Rightarrow> f64_ge_rat v c | None \<Rightarrow> False)"

text \<open>The inner function \<^verbatim>\<open>_status\<close>, from the three cells of the row that it reads.\<close>

definition status_of :: "f64 option \<Rightarrow> f64 option \<Rightarrow> f64 option \<Rightarrow> string" where
  "status_of xa xb avg_xan_taken =
     (let a_missing = (xa = None); b_missing = (xb = None)
      in if a_missing \<and> b_missing then ''Never Taken Xan!!!''
         else if a_missing then ''New Recruit''
         else if b_missing then ''Not in Faction and Time of Second Snapshot''
         else if lt_na avg_xan_taken 1 then ''Fail''
         else if ge_na avg_xan_taken 2 then ''Exceeds''
         else ''Pass'')"

definition joined_row ::
  "frame \<Rightarrow> frame \<Rightarrow> day_count option \<Rightarrow> string \<times> snap_row option \<times> snap_row option \<Rightarrow> report_row" where
  "joined_row df_a df_b days_between j =
     (case j of (k, x, y) \<Rightarrow>
      let xa = side_value df_a ''xantaken'' xantaken x;
          na = side_value df_a ''name'' name x;
          pa = side_value df_a ''position'' position x;
          la = side_value df_a ''level'' level x;
          xb = side_value df_b ''xantaken'' xantaken y;
          nb = side_value df_b ''name'' name y;
          pb = side_value df_b ''position'' position y;
          lb = side_value df_b ''level'' level y;
          mn = min_skipna xa xb;
          mx = max_skipna xa xb;
          avg = avg_per_day days_between mx mn
      in \<lparr>r_user_id = k,
          xantaken_a = xa, name_a = na, position_a = pa, level_a = la,
          xantaken_b = xb, name_b = nb, position_b = pb, level_b = lb,
          r_name = combine_meta df_a df_b ''name'' na nb,
          r_position = combine_meta df_a df_b ''position'' pa pb,
          r_level = combine_meta df_a df_b ''level'' la lb,
          diff_xantaken = sub_na xb xa,
          xantaken_min = mn, xantaken_max = mx,
          avg_xantaken_per_day = avg,
          status = status_of xa xb avg\<rparr>)"

definition merged_rows :: "frame \<Rightarrow> frame \<Rightarrow> day_count option \<Rightarrow> report_row list" where
  "merged_rows df_a df_b days_between =
     map (joined_row df_a df_b days_between) (merge_outer df_a df_b)"

definition merged_columns :: "frame \<Rightarrow> frame \<Rightarrow> string list" where
  "merged_columns df_a df_b =
     [''user_id'', ''xantaken_a'']
     @ map (\<lambda>c. c @ ''_a'') (filter (\<lambda>c. c \<in> set (columns df_a)) (meta_cols df_a df_b))
     @ [''xantaken_b'']
     @ map (\<lambda>c. c @ ''_b'') (filter (\<lambda>c. c \<in> set (columns df_b)) (meta_cols df_a df_b))
     @ meta_cols df_a df_b
     @ [''diff_xantaken'', ''xantaken_min'', ''xantaken_max'', ''avg_xantaken_per_day'', ''status'']"

definition out_cols :: "frame \<Rightarrow> frame \<Rightarrow> string list" where
  "out_cols df_a df_b =
     filter (\<lambda>c. c \<in> set (merged_columns df_a df_b))
       ([''user_id''] @ meta_cols df_a df_b
        @ [''xantaken_a'', ''xantaken_b'', ''diff_xantaken'', ''avg_xantaken_per_day'', ''status''])"

subsection \<open>The final order\<close>

text \<open>
  \<^verbatim>\<open>sort_values(by=["position", "diff_xantaken", "user_id"], ascending=[True, False, True],
  na_position="last")\<close> is a stable sort on three keys, a null of a key after every value
  of that key whatever its direction. The key of a row: a tag that is 1 for null, then
  the value, negated for the descending key (an infinity as a tag before the rational).
\<close>

definition position_key :: "report_row \<Rightarrow> nat \<times> string" where
  "position_key r = (case r_position r of None \<Rightarrow> (1, []) | Some p \<Rightarrow> (0, p))"

fun descending :: "f64 \<Rightarrow> int \<times> rat" where
  "descending PInf = (- 1, 0)"
| "descending (Fin d) = (0, - d)"
| "descending NInf = (1, 0)"

definition diff_key :: "report_row \<Rightarrow> nat \<times> int \<times> rat" where
  "diff_key r = (case diff_xantaken r of None \<Rightarrow> (1, 0, 0) | Some d \<Rightarrow> (0, descending d))"

definition sort_values_key :: "report_row \<Rightarrow> (nat \<times> string) \<times> (nat \<times> int \<times> rat) \<times> string" where
  "sort_values_key r = (position_key r, diff_key r, r_user_id r)"

definition sort_values :: "report_row list \<Rightarrow> report_row list" where
  "sort_values rs = sort_key sort_values_key rs"

subsection \<open>\<^verbatim>\<open>build_report\<close>\<close>

text \<open>
  \<open>csv_a\<close> and \<open>csv_b\<close> are the frames that \<^verbatim>\<open>pd.read_csv\<close> returned for the two paths.
  Sorting by a column that the frame lacks raises \<^verbatim>\<open>KeyError\<close>.
\<close>

definition build_report ::
  "pandas_lib \<Rightarrow> string \<Rightarrow> csv_frame \<Rightarrow> string \<Rightarrow> csv_frame
     \<Rightarrow> py_error + (report \<times> resolved option \<times> resolved option \<times> day_count option)" where
  "build_report L path_a csv_a path_b csv_b =
     (case load_snapshot L path_a csv_a of Inl e \<Rightarrow> Inl e | Inr df_a \<Rightarrow>
     (case load_snapshot L path_b csv_b of Inl e \<Rightarrow> Inl e | Inr df_b \<Rightarrow>
     (case parse_date_from_df_or_filename L df_a path_a of Inl e \<Rightarrow> Inl e | Inr date_a \<Rightarrow>
     (case parse_date_from_df_or_filename L df_b path_b of Inl e \<Rightarrow> Inl e | Inr date_b \<Rightarrow>
     (case date_span date_a date_b of Inl e \<Rightarrow> Inl e | Inr (start_date, end_date, days_between) \<Rightarrow>
        if ''position'' \<notin> set (out_cols df_a df_b) then Inl (KeyError ''position'')
        else Inr (\<lparr>report_columns = out_cols df_a df_b,
                   report_rows = sort_values (merged_rows df_a df_b days_between)\<rparr>,
                  start_date, end_date, days_between))))))"

section \<open>The fetcher's request headers\<close>

text \<open>
  The \<^verbatim>\<open>headers\<close> dictionary that \<^verbatim>\<open>torn_get\<close> builds from its arguments and passes to
  every \<^verbatim>\<open>session.get\<close> of its retry loop. The f-string of the first entry has no
  replacement field.
\<close>

definition torn_get_headers :: "string \<Rightarrow> (string \<times> string) list" where
  "torn_get_headers api_key =
     [(''Authorization'', ''ApiKey xOZ42wvjt01rhnl9''),
      (''Accept'', ''application/json''),
      (''User-Agent'', ''faction-xantaken-export/1.0'')]"

section \<open>Notions for the proofs about the join\<close>

text \<open>
  The rows that \<^verbatim>\<open>merge\<close> makes for one key, and the relation between a key and the
  pair of rows (one of them possibly absent) that the outer join puts together. They
  are not part of the program; the proofs use them to describe \<open>merge_outer\<close>.
\<close>

definition merge_key :: "frame \<Rightarrow> frame \<Rightarrow> string \<Rightarrow> (string \<times> snap_row option \<times> snap_row option) list" where
  "merge_key a b k =
     (let ra = filter (\<lambda>r. user_id r = k) (rows a);
          rb = filter (\<lambda>r. user_id r = k) (rows b)
      in if rb = [] then map (\<lambda>x. (k, Some x, None)) ra
         else if ra = [] then map (\<lambda>y. (k, None, Some y)) rb
         else concat (map (\<lambda>x. map (\<lambda>y. (k, Some x, Some y)) rb) ra))"

definition joins :: "frame \<Rightarrow> frame \<Rightarrow> string \<Rightarrow> snap_row option \<Rightarrow> snap_row option \<Rightarrow> bool" where
  "joins a b k x y \<longleftrightarrow>
     (\<exists>u v. x = Some u \<and> y = Some v \<and> u \<in> set (rows a) \<and> v \<in> set (rows b)
            \<and> user_id u = k \<and> user_id v = k)
   \<or> (\<exists>u. x = Some u \<and> y = None \<and> u \<in> set (rows a) \<and> user_id u = k
            \<and> k \<notin> user_id ` set (rows b))
   \<or> (\<exists>v. x = None \<and> y = Some v \<and> v \<in> set (rows b) \<and> user_id v = k
            \<and> k \<notin> user_id ` set (rows a))"

section \<open>Example snapshots\<close>

text \<open>
  Two exports of a faction, three days apart, with the header that the exporter writes.
  Member 2 is only in the first one and member 3 only in the second one. \<open>ex_lib\<close> is an
  instance of the library parameters for these examples: decimal digits as numbers, ISO
  dates as dates and the text \<^verbatim>\<open>NaT\<close> as \<^verbatim>\<open>NaT\<close>, on which it agrees with pandas; the
  cells of the examples hold nothing else.
\<close>

definition ex_lib :: pandas_lib where
  "ex_lib = \<lparr>to_numeric_str = (\<lambda>s. if s \<noteq> [] \<and> list_all is_digit s then Some (Fin (of_nat (digits_val s))) else None),
      str_float = (\<lambda>x. []),
      to_datetime = (\<lambda>c. case c of
                       StrV s \<Rightarrow> if s = ''NaT'' then Inr NaT else map_sum id Date (fromisoformat s)
                     | _ \<Rightarrow> Inl ParseError)\<rparr>"

definition ex_columns :: "string list" where
  "ex_columns = [''user_id'', ''name'', ''position'', ''level'', ''xantaken'', ''export_date'']"

definition ex_row :: "int \<Rightarrow> string \<Rightarrow> string \<Rightarrow> int \<Rightarrow> int \<Rightarrow> string \<Rightarrow> csv_row" where
  "ex_row i n p l x d = \<lparr>csv_user_id = IntV i, csv_name = Some n, csv_position = Some p, csv_level = Some l, csv_xantaken = IntV x, csv_export_date = StrV d\<rparr>"

definition snap_jan01 :: csv_frame where
  "snap_jan01 = \<lparr>csv_columns = ex_columns,
     csv_rows = [ex_row 1 ''Ann'' ''Member'' 10 3 ''2024-01-01'', ex_row 2 ''Bob'' ''Member'' 20 7 ''2024-01-01'']\<rparr>"

definition snap_jan04 :: csv_frame where
  "snap_jan04 = \<lparr>csv_columns = ex_columns,
     csv_rows = [ex_row 1 ''Ann'' ''Member'' 10 15 ''2024-01-04'', ex_row 3 ''Cy'' ''Leader'' 30 40 ''2024-01-04'']\<rparr>"

definition jan01 :: date where "jan01 = \<lparr>year = 2024, month = 1, day = 1\<rparr>"
definition jan04 :: date where "jan04 = \<lparr>year = 2024, month = 1, day = 4\<rparr>"

definition rep_jan :: report where
  "rep_jan = fst (projr (build_report ex_lib ''jan01.csv'' snap_jan01 ''jan04.csv'' snap_jan04))"

definition rep_swapped :: report where
  "rep_swapped = fst (projr (build_report ex_lib ''jan04.csv'' snap_jan04 ''jan01.csv'' snap_jan01))"

definition frame_jan01 :: frame where
  "frame_jan01 = \<lparr>columns = csv_columns snap_jan01, rows = map (normalize_row ex_lib) (csv_rows snap_jan01)\<rparr>"

definition frame_jan04 :: frame where
  "frame_jan04 = \<lparr>columns = csv_columns snap_jan04, rows = map (normalize_row ex_lib) (csv_rows snap_jan04)\<rparr>"

definition snap_no_position :: csv_frame where
  "snap_no_position = \<lparr>csv_columns = [''user_id'', ''xantaken''],
     csv_rows = [\<lparr>csv_user_id = IntV 1, csv_name = None, csv_position = None, csv_level = None, csv_xantaken = IntV 3, csv_export_date = NaN\<rparr>]\<rparr>"


text \<open>
  A snapshot whose stat column holds text that is not a number, a file without the
  mandatory columns, and an export of the first day whose date column starts with an
  empty cell and then holds the text \<^verbatim>\<open>NaT\<close>, with the frame that loading it gives.
\<close>

definition snap_bad_value :: csv_frame where
  "snap_bad_value = \<lparr>csv_columns = [''user_id'', ''position'', ''xantaken''],
     csv_rows = [\<lparr>csv_user_id = IntV 1, csv_name = None, csv_position = Some ''Member'',
                  csv_level = None, csv_xantaken = StrV ''n/a?'', csv_export_date = NaN\<rparr>,
                 \<lparr>csv_user_id = IntV 2, csv_name = None, csv_position = Some ''Member'',
                  csv_level = None, csv_xantaken = StrV ''12'', csv_export_date = NaN\<rparr>]\<rparr>"

definition snap_no_stat :: csv_frame where
  "snap_no_stat = \<lparr>csv_columns = [''name'', ''level''], csv_rows = []\<rparr>"

definition snap_nat :: csv_frame where
  "snap_nat = \<lparr>csv_columns = ex_columns,
     csv_rows = [(ex_row 1 ''Ann'' ''Member'' 10 3 [])\<lparr>csv_export_date := NaN\<rparr>,
                 ex_row 2 ''Bob'' ''Member'' 20 7 ''NaT'',
                 ex_row 4 ''Dee'' ''Member'' 5 1 ''2024-01-01'']\<rparr>"

definition frame_nat :: frame where
  "frame_nat = \<lparr>columns = csv_columns snap_nat, rows = map (normalize_row ex_lib) (csv_rows snap_nat)\<rparr>"

section \<open>Properties\<close>

subsection \<open>Auxiliary facts\<close>

lemma load_snapshot_Inr:
  "load_snapshot L path df = Inr f \<longleftrightarrow>
     (missing_columns df = [] \<and> f = \<lparr>columns = csv_columns df, rows = map (normalize_row L) (csv_rows df)\<rparr>)"
  by (auto simp: load_snapshot_def)

lemma missing_columns_Nil:
  "missing_columns df = [] \<longleftrightarrow> ''user_id'' \<in> set (csv_columns df) \<and> ''xantaken'' \<in> set (csv_columns df)"
  by (auto simp: missing_columns_def required_def)

lemma build_report_InrD:
  assumes "build_report L pa ca pb cb = Inr (rep, s, e, d)"
  shows "\<exists>df_a df_b date_a date_b.
           load_snapshot L pa ca = Inr df_a \<and> load_snapshot L pb cb = Inr df_b
         \<and> parse_date_from_df_or_filename L df_a pa = Inr date_a
         \<and> parse_date_from_df_or_filename L df_b pb = Inr date_b
         \<and> date_span date_a date_b = Inr (s, e, d)
         \<and> ''position'' \<in> set (out_cols df_a df_b)
         \<and> report_columns rep = out_cols df_a df_b
         \<and> report_rows rep = sort_values (merged_rows df_a df_b d)"
  using assms unfolding build_report_def
  by (auto split: sum.splits prod.splits if_splits)

lemma set_sort_values: "set (sort_values rs) = set rs"
  by (simp add: sort_values_def)

lemma report_row_joined:
  assumes "build_report L pa ca pb cb = Inr (rep, s, e, d)" "r \<in> set (report_rows rep)"
  shows "\<exists>df_a df_b j. load_snapshot L pa ca = Inr df_a \<and> load_snapshot L pb cb = Inr df_b
            \<and> j \<in> set (merge_outer df_a df_b) \<and> r = joined_row df_a df_b d j"
proof -
  from build_report_InrD[OF assms(1)] obtain df_a df_b where
    l: "load_snapshot L pa ca = Inr df_a" "load_snapshot L pb cb = Inr df_b"
    and rr: "report_rows rep = sort_values (merged_rows df_a df_b d)" by blast
  from assms(2) rr have "r \<in> set (merged_rows df_a df_b d)" by (simp add: set_sort_values)
  then obtain j where "j \<in> set (merge_outer df_a df_b)" "r = joined_row df_a df_b d j"
    by (auto simp: merged_rows_def)
  with l show ?thesis by blast
qed

lemma joined_row_sel:
  "xantaken_min (joined_row df_a df_b d j) = min_skipna (xantaken_a (joined_row df_a df_b d j)) (xantaken_b (joined_row df_a df_b d j))"
  "xantaken_max (joined_row df_a df_b d j) = max_skipna (xantaken_a (joined_row df_a df_b d j)) (xantaken_b (joined_row df_a df_b d j))"
  "diff_xantaken (joined_row df_a df_b d j) = sub_na (xantaken_b (joined_row df_a df_b d j)) (xantaken_a (joined_row df_a df_b d j))"
  "avg_xantaken_per_day (joined_row df_a df_b d j) = avg_per_day d (xantaken_max (joined_row df_a df_b d j)) (xantaken_min (joined_row df_a df_b d j))"
  "status (joined_row df_a df_b d j) = status_of (xantaken_a (joined_row df_a df_b d j)) (xantaken_b (joined_row df_a df_b d j)) (avg_xantaken_per_day (joined_row df_a df_b d j))"
  "r_user_id (joined_row df_a df_b d j) = fst j"
  by (simp_all add: joined_row_def Let_def split: prod.splits)

lemma date_from_filename_total: "\<exists>r. date_from_filename path = Inr r"
  by (auto simp: date_from_filename_def try_return_def split: option.splits sum.splits)

lemma parse_date_total: "\<exists>r. parse_date_from_df_or_filename L df path = Inr r"
  using date_from_filename_total[of path]
  by (auto simp: parse_date_from_df_or_filename_def try_return_def split: list.splits sum.splits)

lemma position_in_out_cols:
  "''position'' \<in> set (out_cols df_a df_b) \<longleftrightarrow>
     ''position'' \<in> set (columns df_a) \<or> ''position'' \<in> set (columns df_b)"
  by (auto simp: out_cols_def merged_columns_def meta_cols_def)

lemma date_le_total: "\<not> date_le x y \<Longrightarrow> date_le y x"
  by (auto simp: date_le_def)

lemma date_le_antisym: "date_le x y \<Longrightarrow> date_le y x \<Longrightarrow> x = (y::date)"
  by (cases x, cases y) (auto simp: date_le_def)

lemma build_jan:
  "build_report ex_lib ''jan01.csv'' snap_jan01 ''jan04.csv'' snap_jan04
     = Inr (rep_jan, Some (Date jan01), Some (Date jan04), Some (Days 3))"
  unfolding rep_jan_def by code_simp

lemma build_swapped:
  "build_report ex_lib ''jan04.csv'' snap_jan04 ''jan01.csv'' snap_jan01
     = Inr (rep_swapped, Some (Date jan01), Some (Date jan04), Some (Days 3))"
  unfolding rep_swapped_def by code_simp

lemma sublist_prepend: "sublist c ys \<Longrightarrow> sublist c (zs @ ys)"
proof -
  assume "sublist c ys"
  then obtain ps ss where "ys = ps @ c @ ss" by (auto simp: sublist_def)
  then have "zs @ ys = (zs @ ps) @ c @ ss" by simp
  then show ?thesis unfolding sublist_def by blast
qed

lemma sublist_postpend: "sublist c ys \<Longrightarrow> sublist c (ys @ zs)"
proof -
  assume "sublist c ys"
  then obtain ps ss where "ys = ps @ c @ ss" by (auto simp: sublist_def)
  then have "ys @ zs = ps @ c @ (ss @ zs)" by simp
  then show ?thesis unfolding sublist_def by blast
qed

lemma sublist_join_str: "c \<in> set xs \<Longrightarrow> sublist c (join_str sep xs)"
proof (induction sep xs rule: join_str.induct)
  case (1 sep)
  then show ?case by simp
next
  case (2 sep x)
  then show ?case by simp
next
  case (3 sep x y ys)
  show ?case
  proof (cases "c = x")
    case True
    then show ?thesis by simp
  next
    case False
    with 3 have "sublist c (join_str sep (y # ys))" by simp
    then have "sublist c ((x @ sep) @ join_str sep (y # ys))"
      by (rule sublist_prepend)
    then show ?thesis by simp
  qed
qed

lemma message_names_path: "sublist path (missing_message path df)"
  by (simp add: missing_message_def)

lemma message_names_column:
  assumes "c \<in> set (missing_columns df)"
  shows "sublist c (missing_message path df)"
proof -
  have "sublist c (join_str '', '' (missing_columns df))"
    using assms by (rule sublist_join_str)
  then have "sublist c (join_str '', '' (missing_columns df)
       @ (''. Found columns: '' @ join_str '', '' (csv_columns df)))"
    by (rule sublist_postpend)
  then have "sublist c ((path @ '' is missing required column(s): '') @ join_str '', '' (missing_columns df)
       @ (''. Found columns: '' @ join_str '', '' (csv_columns df)))"
    by (rule sublist_prepend)
  then show ?thesis by (simp add: missing_message_def)
qed

lemma load_jan01: "load_snapshot ex_lib ''jan01.csv'' snap_jan01 = Inr frame_jan01"
  by code_simp

lemma load_jan04: "load_snapshot ex_lib ''jan04.csv'' snap_jan04 = Inr frame_jan04"
  by code_simp

lemma merge_outer_keys:
  "merge_outer a b = concat (map (merge_key a b) (sort (remdups (map user_id (rows a) @ map user_id (rows b)))))"
  by (simp add: merge_outer_def merge_key_def[abs_def])

lemma filter_user_id_empty:
  "filter (\<lambda>r. user_id r = k) rs = [] \<longleftrightarrow> k \<notin> user_id ` set rs"
  by (auto simp: filter_empty_conv)


lemma in_merge_key:
  "(k', x, y) \<in> set (merge_key a b k) \<longleftrightarrow> k' = k \<and> joins a b k x y"
proof (cases "k \<in> user_id ` set (rows b)")
  case False
  then have m: "merge_key a b k = map (\<lambda>x. (k, Some x, None)) (filter (\<lambda>r. user_id r = k) (rows a))"
    by (simp add: merge_key_def filter_user_id_empty)
  from False have nb: "\<And>v. v \<in> set (rows b) \<Longrightarrow> user_id v \<noteq> k" by blast
  show ?thesis unfolding m joins_def using False nb by auto
next
  case inb: True
  show ?thesis
  proof (cases "k \<in> user_id ` set (rows a)")
    case False
    with inb have m: "merge_key a b k = map (\<lambda>y. (k, None, Some y)) (filter (\<lambda>r. user_id r = k) (rows b))"
      by (simp add: merge_key_def filter_user_id_empty)
    from False have na: "\<And>u. u \<in> set (rows a) \<Longrightarrow> user_id u \<noteq> k" by blast
    show ?thesis unfolding m joins_def using False inb na by auto
  next
    case True
    with inb have m: "merge_key a b k =
        concat (map (\<lambda>x. map (\<lambda>y. (k, Some x, Some y)) (filter (\<lambda>r. user_id r = k) (rows b)))
                    (filter (\<lambda>r. user_id r = k) (rows a)))"
      by (simp add: merge_key_def filter_user_id_empty)
    show ?thesis unfolding m joins_def using True inb by auto
  qed
qed

lemma merge_key_fst: "j \<in> set (merge_key a b k) \<Longrightarrow> fst j = k"
  by (cases j) (simp add: in_merge_key)

lemma merge_key_empty:
  "k \<notin> user_id ` set (rows a) \<Longrightarrow> k \<notin> user_id ` set (rows b) \<Longrightarrow> merge_key a b k = []"
  by (simp add: merge_key_def filter_user_id_empty)

lemma joins_key: "joins a b k x y \<Longrightarrow> k \<in> user_id ` set (rows a) \<union> user_id ` set (rows b)"
  by (auto simp: joins_def)

lemma in_merge_outer:
  "(k, x, y) \<in> set (merge_outer a b) \<longleftrightarrow> joins a b k x y"
proof -
  let ?ks = "sort (remdups (map user_id (rows a) @ map user_id (rows b)))"
  have ks: "set ?ks = user_id ` set (rows a) \<union> user_id ` set (rows b)" by simp
  have "(k, x, y) \<in> set (merge_outer a b) \<longleftrightarrow> (\<exists>k' \<in> set ?ks. (k, x, y) \<in> set (merge_key a b k'))"
    unfolding merge_outer_keys by (simp only: set_concat set_map) blast
  also have "\<dots> \<longleftrightarrow> k \<in> set ?ks \<and> joins a b k x y"
    by (auto simp: in_merge_key)
  also have "\<dots> \<longleftrightarrow> joins a b k x y"
    unfolding ks using joins_key[of a b k x y] by blast
  finally show ?thesis .
qed

lemma filter_concat_keys:
  assumes "distinct ks" and "\<And>k' j. j \<in> set (g k') \<Longrightarrow> fst j = k'"
  shows "filter (\<lambda>j. fst j = k) (concat (map g ks)) = (if k \<in> set ks then g k else [])"
  using assms(1)
proof (induction ks)
  case Nil
  then show ?case by simp
next
  case (Cons a ks)
  then have IH: "filter (\<lambda>j. fst j = k) (concat (map g ks)) = (if k \<in> set ks then g k else [])"
    and a: "a \<notin> set ks" by simp_all
  show ?case
  proof (cases "a = k")
    case True
    have "filter (\<lambda>j. fst j = k) (g k) = g k"
      using assms(2) by (simp add: filter_id_conv)
    with True IH a show ?thesis by simp
  next
    case False
    have "filter (\<lambda>j. fst j = k) (g a) = []"
      using assms(2) False by (auto simp: filter_empty_conv)
    with False IH show ?thesis by simp
  qed
qed

lemma filter_merge_outer:
  "filter (\<lambda>j. fst j = k) (merge_outer a b) = merge_key a b k"
proof -
  let ?ks = "sort (remdups (map user_id (rows a) @ map user_id (rows b)))"
  have d: "distinct ?ks" by simp
  have "filter (\<lambda>j. fst j = k) (merge_outer a b) = (if k \<in> set ?ks then merge_key a b k else [])"
    unfolding merge_outer_keys by (rule filter_concat_keys[OF d]) (rule merge_key_fst)
  also have "\<dots> = merge_key a b k"
    by (auto simp: merge_key_empty)
  finally show ?thesis .
qed

lemma distinct_filter_length:
  "distinct (map f xs) \<Longrightarrow> length (filter (\<lambda>x. f x = k) xs) = (if k \<in> f ` set xs then 1 else 0)"
  by (induction xs) auto

lemma length_merge_key:
  assumes "distinct (map user_id (rows a))" "distinct (map user_id (rows b))"
    and "k \<in> user_id ` set (rows a) \<union> user_id ` set (rows b)"
  shows "length (merge_key a b k) = 1"
proof -
  let ?ra = "filter (\<lambda>r. user_id r = k) (rows a)"
  let ?rb = "filter (\<lambda>r. user_id r = k) (rows b)"
  have la: "length ?ra = (if k \<in> user_id ` set (rows a) then 1 else 0)"
    by (rule distinct_filter_length[OF assms(1)])
  have lb: "length ?rb = (if k \<in> user_id ` set (rows b) then 1 else 0)"
    by (rule distinct_filter_length[OF assms(2)])
  show ?thesis
  proof (cases "?rb = []")
    case True
    then have "k \<notin> user_id ` set (rows b)" by (simp add: filter_user_id_empty)
    with assms(3) la True show ?thesis by (simp add: merge_key_def)
  next
    case nb: False
    then have kb: "k \<in> user_id ` set (rows b)" by (simp add: filter_user_id_empty)
    show ?thesis
    proof (cases "?ra = []")
      case True
      with nb lb kb show ?thesis by (simp add: merge_key_def)
    next
      case False
      then have ka: "k \<in> user_id ` set (rows a)" by (simp add: filter_user_id_empty)
      from la ka obtain x where x: "?ra = [x]" by (cases ?ra) auto
      from lb kb obtain y where y: "?rb = [y]" by (cases ?rb) auto
      show ?thesis by (simp add: merge_key_def x y)
    qed
  qed
qed

lemma length_filter_report:
  "length (filter (\<lambda>r. r_user_id r = k) (sort_values (merged_rows df_a df_b d)))
     = length (merge_key df_a df_b k)"
proof -
  have "filter (\<lambda>r. r_user_id r = k) (merged_rows df_a df_b d)
          = map (joined_row df_a df_b d) (filter (\<lambda>j. fst j = k) (merge_outer df_a df_b))"
    by (simp add: merged_rows_def filter_map comp_def joined_row_sel)
  then show ?thesis
    by (simp add: sort_values_def filter_sort filter_merge_outer)
qed

lemma joined_row_sides:
  "xantaken_a (joined_row df_a df_b d (k, x, y)) = side_value df_a ''xantaken'' xantaken x"
  "xantaken_b (joined_row df_a df_b d (k, x, y)) = side_value df_b ''xantaken'' xantaken y"
  "name_a (joined_row df_a df_b d (k, x, y)) = side_value df_a ''name'' name x"
  "name_b (joined_row df_a df_b d (k, x, y)) = side_value df_b ''name'' name y"
  "position_a (joined_row df_a df_b d (k, x, y)) = side_value df_a ''position'' position x"
  "position_b (joined_row df_a df_b d (k, x, y)) = side_value df_b ''position'' position y"
  "level_a (joined_row df_a df_b d (k, x, y)) = side_value df_a ''level'' level x"
  "level_b (joined_row df_a df_b d (k, x, y)) = side_value df_b ''level'' level y"
  "r_user_id (joined_row df_a df_b d (k, x, y)) = k"
  by (simp_all add: joined_row_def Let_def)

lemma side_value_None: "side_value df c f None = None"
  by (simp add: side_value_def)

lemma joins_only_left:
  assumes "joins a b k x y" and "k \<notin> user_id ` set (rows b)"
  shows "y = None"
proof (cases y)
  case None
  then show ?thesis .
next
  case (Some v)
  with assms(1) have "v \<in> set (rows b)" "user_id v = k" by (auto simp: joins_def)
  then have "k \<in> user_id ` set (rows b)" by (metis imageI)
  with assms(2) show ?thesis by simp
qed

lemma joins_only_right:
  assumes "joins a b k x y" and "k \<notin> user_id ` set (rows a)"
  shows "x = None"
proof (cases x)
  case None
  then show ?thesis .
next
  case (Some u)
  with assms(1) have "u \<in> set (rows a)" "user_id u = k" by (auto simp: joins_def)
  then have "k \<in> user_id ` set (rows a)" by (metis imageI)
  with assms(2) show ?thesis by simp
qed

lemma report_row_joins:
  assumes "build_report L pa ca pb cb = Inr (rep, s, e, d)"
    and "load_snapshot L pa ca = Inr df_a" and "load_snapshot L pb cb = Inr df_b"
    and "r \<in> set (report_rows rep)"
  shows "\<exists>k x y. joins df_a df_b k x y \<and> r = joined_row df_a df_b d (k, x, y)"
proof -
  from report_row_joined[OF assms(1,4)] assms(2,3) obtain j where
    j: "j \<in> set (merge_outer df_a df_b)" "r = joined_row df_a df_b d j" by auto
  obtain k x y where jj: "j = (k, x, y)" by (cases j) auto
  with j in_merge_outer[of k x y df_a df_b] show ?thesis by blast
qed

lemma descending_le: "descending u \<le> descending v \<longleftrightarrow> f64_le v u"
  by (cases u; cases v) auto

lemma sort_values_sorted:
  assumes "i < j" "j < length (sort_values rs)"
  shows "sort_values_key (sort_values rs ! i) \<le> sort_values_key (sort_values rs ! j)"
proof -
  have "sorted (map sort_values_key (sort_values rs))"
    by (simp add: sort_values_def)
  from sorted_nth_mono[OF this, of i j] assms show ?thesis by simp
qed

lemma key_le_cases:
  assumes "sort_values_key r \<le> sort_values_key s"
  shows "(r_position r = None \<longrightarrow> r_position s = None)
     \<and> (\<forall>p q. r_position r = Some p \<and> r_position s = Some q \<longrightarrow> p \<le> q)
     \<and> (r_position r = r_position s \<longrightarrow>
          (diff_xantaken r = None \<longrightarrow> diff_xantaken s = None)
          \<and> (\<forall>u v. diff_xantaken r = Some u \<and> diff_xantaken s = Some v \<longrightarrow> f64_le v u))
     \<and> (r_position r = r_position s \<and> diff_xantaken r = diff_xantaken s \<longrightarrow>
          r_user_id r \<le> r_user_id s)"
proof -
  have pk: "position_key r < position_key s
         \<or> (position_key r = position_key s \<and> diff_key r < diff_key s)
         \<or> (position_key r = position_key s \<and> diff_key r = diff_key s \<and> r_user_id r \<le> r_user_id s)"
    using assms unfolding sort_values_key_def by (auto simp: less_le)
  have p1: "r_position r = None \<longrightarrow> r_position s = None"
    using pk by (auto simp: position_key_def split: option.splits)
  have p2: "\<forall>p q. r_position r = Some p \<and> r_position s = Some q \<longrightarrow> p \<le> q"
    using pk by (auto simp: position_key_def split: option.splits)
  have eqp: "r_position r = r_position s \<Longrightarrow> position_key r = position_key s"
    by (simp add: position_key_def)
  have dk: "r_position r = r_position s \<Longrightarrow> diff_key r \<le> diff_key s"
    using pk eqp by auto
  have p3: "r_position r = r_position s \<longrightarrow>
          (diff_xantaken r = None \<longrightarrow> diff_xantaken s = None)
          \<and> (\<forall>u v. diff_xantaken r = Some u \<and> diff_xantaken s = Some v \<longrightarrow> f64_le v u)"
  proof
    assume "r_position r = r_position s"
    from dk[OF this] show "(diff_xantaken r = None \<longrightarrow> diff_xantaken s = None)
          \<and> (\<forall>u v. diff_xantaken r = Some u \<and> diff_xantaken s = Some v \<longrightarrow> f64_le v u)"
      by (auto simp: diff_key_def descending_le split: option.splits)
  qed
  have p4: "r_position r = r_position s \<and> diff_xantaken r = diff_xantaken s \<longrightarrow>
          r_user_id r \<le> r_user_id s"
  proof
    assume a: "r_position r = r_position s \<and> diff_xantaken r = diff_xantaken s"
    then have "position_key r = position_key s" "diff_key r = diff_key s"
      by (simp_all add: position_key_def diff_key_def)
    with pk show "r_user_id r \<le> r_user_id s" by auto
  qed
  from p1 p2 p3 p4 show ?thesis by blast
qed

lemma joins_swap: "joins b a k y x \<longleftrightarrow> joins a b k x y"
  by (auto simp: joins_def)

lemma in_merged_rows:
  "r \<in> set (merged_rows a b d) \<longleftrightarrow> (\<exists>k x y. joins a b k x y \<and> r = joined_row a b d (k, x, y))"
proof
  assume "r \<in> set (merged_rows a b d)"
  then obtain j where j: "j \<in> set (merge_outer a b)" "r = joined_row a b d j"
    by (auto simp: merged_rows_def)
  obtain k x y where "j = (k, x, y)" by (cases j) auto
  with j show "\<exists>k x y. joins a b k x y \<and> r = joined_row a b d (k, x, y)"
    by (auto simp: in_merge_outer)
next
  assume "\<exists>k x y. joins a b k x y \<and> r = joined_row a b d (k, x, y)"
  then obtain k x y where "joins a b k x y" "r = joined_row a b d (k, x, y)" by blast
  then have "(k, x, y) \<in> set (merge_outer a b)" "r = joined_row a b d (k, x, y)"
    by (simp_all add: in_merge_outer)
  then show "r \<in> set (merged_rows a b d)"
    unfolding merged_rows_def by (metis image_eqI set_map)
qed

lemma date_span_dates:
  assumes "date_span a b = Inr (s, e, Some (Days n))"
  shows "\<exists>x y. a = Some (Date x) \<and> b = Some (Date y)"
proof (cases a)
  case None
  with assms show ?thesis by (simp add: date_span_def)
next
  case sa: (Some ra)
  show ?thesis
  proof (cases b)
    case None
    with sa assms show ?thesis by (simp add: date_span_def)
  next
    case sb: (Some rb)
    show ?thesis
    proof (cases ra)
      case NaT
      with sa sb assms show ?thesis
        by (cases rb) (simp_all add: date_span_def)
    next
      case da: (Date x)
      show ?thesis
      proof (cases rb)
        case NaT
        with sa sb da assms show ?thesis by (simp add: date_span_def)
      next
        case (Date y)
        with sa sb da show ?thesis by simp
      qed
    qed
  qed
qed

lemma date_span_two_dates:
  "date_span (Some (Date x)) (Some (Date y)) =
     Inr (if date_le x y then (Some (Date x), Some (Date y), Some (Days \<bar>toordinal y - toordinal x\<bar>))
          else (Some (Date y), Some (Date x), Some (Days \<bar>toordinal y - toordinal x\<bar>)))"
  by (simp add: date_span_def)

lemma date_span_swap:
  assumes "date_span a b = Inr (s, e, Some (Days n))" and "date_span b a = Inr (s', e', d')"
  shows "s' = s \<and> e' = e \<and> d' = Some (Days n)"
proof -
  from date_span_dates[OF assms(1)] obtain x y where ab: "a = Some (Date x)" "b = Some (Date y)"
    by blast
  have comm: "\<bar>toordinal x - toordinal y\<bar> = \<bar>toordinal y - toordinal x\<bar>" by simp
  note 1 = assms(1)[unfolded ab date_span_two_dates]
  note 2 = assms(2)[unfolded ab date_span_two_dates]
  show ?thesis
  proof (cases "date_le x y")
    case le: True
    show ?thesis
    proof (cases "date_le y x")
      case True
      have xy: "x = y" by (rule date_le_antisym[OF le True])
      from 1 le have "s = Some (Date x)" "e = Some (Date y)" "n = \<bar>toordinal y - toordinal x\<bar>"
        by simp_all
      moreover from 2 True comm have "s' = Some (Date y)" "e' = Some (Date x)"
        "d' = Some (Days \<bar>toordinal y - toordinal x\<bar>)"
        by simp_all
      ultimately show ?thesis using xy by simp
    next
      case False
      with le 1 2 comm show ?thesis by simp
    qed
  next
    case False
    then have "date_le y x" by (rule date_le_total)
    with False 1 2 comm show ?thesis by simp
  qed
qed

lemma loaded_xantaken_column:
  "load_snapshot L p c = Inr df \<Longrightarrow> ''xantaken'' \<in> set (columns df)"
  by (auto simp: load_snapshot_Inr missing_columns_Nil)

lemma loaded_rows:
  "load_snapshot L p c = Inr df \<Longrightarrow> rows df = map (normalize_row L) (csv_rows c)"
  by (auto simp: load_snapshot_Inr)

lemma side_label:
  assumes l: "load_snapshot L p c = Inr df"
    and m: "(\<exists>u. x = Some u \<and> u \<in> set (rows df) \<and> user_id u = k)
            \<or> (x = None \<and> k \<notin> user_id ` set (rows df))"
  shows "(\<exists>r \<in> set (csv_rows c). astype_str L (csv_user_id r) = k
              \<and> side_value df ''xantaken'' xantaken x = to_numeric L (csv_xantaken r))
       \<or> ((\<forall>r \<in> set (csv_rows c). astype_str L (csv_user_id r) \<noteq> k)
              \<and> side_value df ''xantaken'' xantaken x = None)"
proof (cases x)
  case None
  with m have "k \<notin> user_id ` set (rows df)" by auto
  then have "\<forall>r \<in> set (csv_rows c). astype_str L (csv_user_id r) \<noteq> k"
    unfolding loaded_rows[OF l] by (auto simp: normalize_row_def image_iff)
  with None show ?thesis by (simp add: side_value_def)
next
  case (Some u)
  with m have u: "u \<in> set (rows df)" "user_id u = k" by auto
  then obtain r where r: "r \<in> set (csv_rows c)" "u = normalize_row L r"
    unfolding loaded_rows[OF l] by auto
  with u have "astype_str L (csv_user_id r) = k" "xantaken u = to_numeric L (csv_xantaken r)"
    by (simp_all add: normalize_row_def)
  with Some r(1) loaded_xantaken_column[OF l] show ?thesis
    by (auto simp: side_value_def)
qed

lemma joins_left:
  "joins a b k x y \<Longrightarrow> (\<exists>u. x = Some u \<and> u \<in> set (rows a) \<and> user_id u = k)
            \<or> (x = None \<and> k \<notin> user_id ` set (rows a))"
  by (auto simp: joins_def)

lemma joins_right:
  "joins a b k x y \<Longrightarrow> (\<exists>v. y = Some v \<and> v \<in> set (rows b) \<and> user_id v = k)
            \<or> (y = None \<and> k \<notin> user_id ` set (rows b))"
  by (auto simp: joins_def)

subsection \<open>Null handling of the minimum and maximum columns\<close>

text \<open>
  Claim C1 says that \<^verbatim>\<open>xantaken_min\<close> and \<^verbatim>\<open>xantaken_max\<close> are null whenever one of
  \<^verbatim>\<open>xantaken_a\<close>, \<^verbatim>\<open>xantaken_b\<close> is null, and that a member of only one snapshot has a null
  rate when the days between the exports are positive. In the report of the two example
  snapshots, three days apart, member 2 is only in the first one: the minimum and the
  maximum of the row are both 7 and the rate is 0.
\<close>

theorem minmax_null_counterexample:
  "build_report ex_lib ''jan01.csv'' snap_jan01 ''jan04.csv'' snap_jan04
     = Inr (rep_jan, Some (Date jan01), Some (Date jan04), Some (Days 3))
   \<and> r_user_id (report_rows rep_jan ! 2) = ''2''
   \<and> xantaken_a (report_rows rep_jan ! 2) = Some (Fin 7)
   \<and> xantaken_b (report_rows rep_jan ! 2) = None
   \<and> xantaken_min (report_rows rep_jan ! 2) = Some (Fin 7)
   \<and> xantaken_max (report_rows rep_jan ! 2) = Some (Fin 7)
   \<and> avg_xantaken_per_day (report_rows rep_jan ! 2) = Some (Fin 0)"
proof -
  have v: "r_user_id (report_rows rep_jan ! 2) = ''2''"
   "xantaken_a (report_rows rep_jan ! 2) = Some (Fin 7)"
   "xantaken_b (report_rows rep_jan ! 2) = None"
   "xantaken_min (report_rows rep_jan ! 2) = Some (Fin 7)"
   "xantaken_max (report_rows rep_jan ! 2) = Some (Fin 7)"
   "avg_xantaken_per_day (report_rows rep_jan ! 2) = Some (Fin 0)"
    unfolding rep_jan_def by code_simp+
  with build_jan show ?thesis by simp
qed

text \<open>
  C1 as the code has it: the minimum and the maximum of a joined row leave null values
  out. They are null exactly when both values are null, and equal the value that is
  there when the other one is null. With a positive number of days between the exports,
  a row with both values null has a null rate, a row with exactly one value null has the
  rate 0 when the value that is there is finite, and a null rate when it is an infinity.
\<close>

theorem minmax_skip_null:
  assumes "build_report L path_a csv_a path_b csv_b = Inr (rep, start_date, end_date, days_between)"
    and "r \<in> set (report_rows rep)"
  shows "(xantaken_min r = None \<longleftrightarrow> xantaken_a r = None \<and> xantaken_b r = None)
     \<and> (xantaken_max r = None \<longleftrightarrow> xantaken_a r = None \<and> xantaken_b r = None)
     \<and> (xantaken_a r = None \<longrightarrow> xantaken_min r = xantaken_b r \<and> xantaken_max r = xantaken_b r)
     \<and> (xantaken_b r = None \<longrightarrow> xantaken_min r = xantaken_a r \<and> xantaken_max r = xantaken_a r)
     \<and> (\<forall>n. days_between = Some (Days n) \<and> 0 < n \<longrightarrow>
          (xantaken_a r = None \<and> xantaken_b r = None \<longrightarrow> avg_xantaken_per_day r = None)
          \<and> (\<forall>v. (xantaken_a r = None \<and> xantaken_b r = Some (Fin v))
                  \<or> (xantaken_a r = Some (Fin v) \<and> xantaken_b r = None)
                \<longrightarrow> avg_xantaken_per_day r = Some (Fin 0))
          \<and> (\<forall>w. (w = PInf \<or> w = NInf)
                  \<and> ((xantaken_a r = None \<and> xantaken_b r = Some w)
                     \<or> (xantaken_a r = Some w \<and> xantaken_b r = None))
                \<longrightarrow> avg_xantaken_per_day r = None))"
proof -
  from report_row_joined[OF assms] obtain df_a df_b j where
    r: "r = joined_row df_a df_b days_between j" by blast
  have mn: "xantaken_min r = min_skipna (xantaken_a r) (xantaken_b r)"
    and mx: "xantaken_max r = max_skipna (xantaken_a r) (xantaken_b r)"
    and av: "avg_xantaken_per_day r = avg_per_day days_between (xantaken_max r) (xantaken_min r)"
    unfolding r by (rule joined_row_sel)+
  show ?thesis
    unfolding av unfolding mn mx
    by (auto simp: min_skipna_def max_skipna_def avg_per_day_def sub_na_def split: option.splits)
qed

theorem minmax_skip_null_witness:
  "build_report ex_lib ''jan01.csv'' snap_jan01 ''jan04.csv'' snap_jan04
     = Inr (rep_jan, Some (Date jan01), Some (Date jan04), Some (Days 3))
   \<and> report_rows rep_jan ! 0 \<in> set (report_rows rep_jan)
   \<and> xantaken_a (report_rows rep_jan ! 0) = None
   \<and> xantaken_b (report_rows rep_jan ! 0) = Some (Fin 40)
   \<and> xantaken_min (report_rows rep_jan ! 0) = Some (Fin 40)
   \<and> xantaken_max (report_rows rep_jan ! 0) = Some (Fin 40)
   \<and> avg_xantaken_per_day (report_rows rep_jan ! 0) = Some (Fin 0)"
proof -
  have m: "report_rows rep_jan ! 0 \<in> set (report_rows rep_jan)"
    unfolding rep_jan_def by code_simp
  have v: "xantaken_a (report_rows rep_jan ! 0) = None"
    "xantaken_b (report_rows rep_jan ! 0) = Some (Fin 40)"
    unfolding rep_jan_def by code_simp+
  from minmax_skip_null[OF build_jan m] v build_jan m show ?thesis by simp
qed

subsection \<open>Status\<close>

text \<open>
  Claim C3: the status of every row of the report follows the precedence: both values
  null, then only the first null, then only the second null, then a rate below 1, then a
  rate of at least 2, then ``Pass''. When the days between the exports are null or zero
  the rate is null, and a null rate with both values there gives ``Pass''.
\<close>

theorem status_precedence:
  assumes "build_report L path_a csv_a path_b csv_b = Inr (rep, start_date, end_date, days_between)"
    and "r \<in> set (report_rows rep)"
  shows "status r =
      (if xantaken_a r = None \<and> xantaken_b r = None then ''Never Taken Xan!!!''
       else if xantaken_a r = None then ''New Recruit''
       else if xantaken_b r = None then ''Not in Faction and Time of Second Snapshot''
       else (case avg_xantaken_per_day r of
               None \<Rightarrow> ''Pass''
             | Some (Fin v) \<Rightarrow> if v < 1 then ''Fail'' else if 2 \<le> v then ''Exceeds'' else ''Pass''
             | Some PInf \<Rightarrow> ''Exceeds''
             | Some NInf \<Rightarrow> ''Fail''))
     \<and> (days_between = None \<or> days_between = Some (Days 0) \<longrightarrow> avg_xantaken_per_day r = None)
     \<and> (xantaken_a r \<noteq> None \<and> xantaken_b r \<noteq> None \<and> avg_xantaken_per_day r = None
          \<longrightarrow> status r = ''Pass'')"
proof -
  from report_row_joined[OF assms] obtain df_a df_b j where
    r: "r = joined_row df_a df_b days_between j" by blast
  have st: "status r = status_of (xantaken_a r) (xantaken_b r) (avg_xantaken_per_day r)"
    unfolding r by (rule joined_row_sel)
  have av: "avg_xantaken_per_day r = avg_per_day days_between (xantaken_max r) (xantaken_min r)"
    unfolding r by (rule joined_row_sel)
  have 1: "status_of xa xb av =
      (if xa = None \<and> xb = None then ''Never Taken Xan!!!''
       else if xa = None then ''New Recruit''
       else if xb = None then ''Not in Faction and Time of Second Snapshot''
       else (case av of
               None \<Rightarrow> ''Pass''
             | Some (Fin v) \<Rightarrow> if v < 1 then ''Fail'' else if 2 \<le> v then ''Exceeds'' else ''Pass''
             | Some PInf \<Rightarrow> ''Exceeds''
             | Some NInf \<Rightarrow> ''Fail''))"
    for xa xb av
    by (simp add: status_of_def lt_na_def ge_na_def Let_def split: option.splits f64.splits)
  have 2: "days_between = None \<or> days_between = Some (Days 0) \<longrightarrow> avg_xantaken_per_day r = None"
    unfolding av by (auto simp: avg_per_day_def)
  show ?thesis using 2 unfolding st 1 by (auto split: option.splits f64.splits)
qed

theorem status_precedence_witness:
  "build_report ex_lib ''jan01.csv'' snap_jan01 ''jan04.csv'' snap_jan04
     = Inr (rep_jan, Some (Date jan01), Some (Date jan04), Some (Days 3))
   \<and> report_rows rep_jan ! 1 \<in> set (report_rows rep_jan)
   \<and> xantaken_a (report_rows rep_jan ! 1) = Some (Fin 3)
   \<and> xantaken_b (report_rows rep_jan ! 1) = Some (Fin 15)
   \<and> avg_xantaken_per_day (report_rows rep_jan ! 1) = Some (Fin 4)
   \<and> status (report_rows rep_jan ! 1) = ''Exceeds''"
proof -
  have m: "report_rows rep_jan ! 1 \<in> set (report_rows rep_jan)"
    unfolding rep_jan_def by code_simp
  have v: "xantaken_a (report_rows rep_jan ! 1) = Some (Fin 3)"
    "xantaken_b (report_rows rep_jan ! 1) = Some (Fin 15)"
    "avg_xantaken_per_day (report_rows rep_jan ! 1) = Some (Fin 4)"
    unfolding rep_jan_def by code_simp+
  from status_precedence[OF build_jan m] v build_jan m show ?thesis by simp
qed

subsection \<open>Start date, end date and the days between\<close>

text \<open>
  Claim C4: when both reference dates resolve, the start date is the earlier one, the end
  date the later one, and the days between are the absolute difference of the two dates
  in days. When one of them does not resolve, start and end date are the two values in
  the order of the arguments and the days between are null.
\<close>

theorem dates_ordered:
  assumes "build_report L path_a csv_a path_b csv_b = Inr (rep, start_date, end_date, days_between)"
    and "load_snapshot L path_a csv_a = Inr df_a"
    and "load_snapshot L path_b csv_b = Inr df_b"
    and "parse_date_from_df_or_filename L df_a path_a = Inr date_a"
    and "parse_date_from_df_or_filename L df_b path_b = Inr date_b"
  shows "(\<forall>x y. date_a = Some (Date x) \<and> date_b = Some (Date y) \<longrightarrow>
            start_date = Some (Date (if date_le x y then x else y))
          \<and> end_date = Some (Date (if date_le x y then y else x))
          \<and> date_le (if date_le x y then x else y) (if date_le x y then y else x)
          \<and> days_between = Some (Days \<bar>toordinal y - toordinal x\<bar>))
       \<and> (date_a = None \<or> date_b = None \<longrightarrow>
            start_date = date_a \<and> end_date = date_b \<and> days_between = None)"
proof -
  from build_report_InrD[OF assms(1)] assms(2-5)
  have "date_span date_a date_b = Inr (start_date, end_date, days_between)" by auto
  then show ?thesis
    by (auto simp: date_span_def date_le_total split: option.splits if_splits)
qed

theorem dates_ordered_witness:
  "build_report ex_lib ''jan04.csv'' snap_jan04 ''jan01.csv'' snap_jan01
     = Inr (rep_swapped, Some (Date jan01), Some (Date jan04), Some (Days 3))
   \<and> parse_date_from_df_or_filename ex_lib
        \<lparr>columns = csv_columns snap_jan04, rows = map (normalize_row ex_lib) (csv_rows snap_jan04)\<rparr> ''jan04.csv''
       = Inr (Some (Date jan04))
   \<and> parse_date_from_df_or_filename ex_lib
        \<lparr>columns = csv_columns snap_jan01, rows = map (normalize_row ex_lib) (csv_rows snap_jan01)\<rparr> ''jan01.csv''
       = Inr (Some (Date jan01))
   \<and> date_le jan01 jan04 \<and> \<bar>toordinal jan01 - toordinal jan04\<bar> = 3"
proof -
  have la: "load_snapshot ex_lib ''jan04.csv'' snap_jan04 = Inr \<lparr>columns = csv_columns snap_jan04, rows = map (normalize_row ex_lib) (csv_rows snap_jan04)\<rparr>"
    by code_simp
  have lb: "load_snapshot ex_lib ''jan01.csv'' snap_jan01 = Inr \<lparr>columns = csv_columns snap_jan01, rows = map (normalize_row ex_lib) (csv_rows snap_jan01)\<rparr>"
    by code_simp
  have pa: "parse_date_from_df_or_filename ex_lib
        \<lparr>columns = csv_columns snap_jan04, rows = map (normalize_row ex_lib) (csv_rows snap_jan04)\<rparr> ''jan04.csv''
       = Inr (Some (Date jan04))"
    by code_simp
  have pb: "parse_date_from_df_or_filename ex_lib
        \<lparr>columns = csv_columns snap_jan01, rows = map (normalize_row ex_lib) (csv_rows snap_jan01)\<rparr> ''jan01.csv''
       = Inr (Some (Date jan01))"
    by code_simp
  have dl: "date_le jan01 jan04" by code_simp
  from dates_ordered[OF build_swapped la lb pa pb] build_swapped pa pb dl show ?thesis by simp
qed

subsection \<open>The position column\<close>

text \<open>
  Claim C10: when neither snapshot has a \<^verbatim>\<open>position\<close> column, \<^verbatim>\<open>build_report\<close> raises
  instead of returning a report; so whenever it returns a report, one of the two
  snapshots has a \<^verbatim>\<open>position\<close> column.
\<close>

theorem position_required:
  "(''position'' \<notin> set (csv_columns csv_a) \<and> ''position'' \<notin> set (csv_columns csv_b)
      \<longrightarrow> (\<exists>e. build_report L path_a csv_a path_b csv_b = Inl e))
   \<and> (\<forall>res. build_report L path_a csv_a path_b csv_b = Inr res
      \<longrightarrow> ''position'' \<in> set (csv_columns csv_a) \<or> ''position'' \<in> set (csv_columns csv_b))"
proof -
  have ret: "''position'' \<in> set (csv_columns csv_a) \<or> ''position'' \<in> set (csv_columns csv_b)"
    if "build_report L path_a csv_a path_b csv_b = Inr res" for res
  proof -
    obtain rep s e d where res: "res = (rep, s, e, d)" by (cases res) auto
    from build_report_InrD[OF that[unfolded res]] obtain df_a df_b where
      l: "load_snapshot L path_a csv_a = Inr df_a" "load_snapshot L path_b csv_b = Inr df_b"
      and p: "''position'' \<in> set (out_cols df_a df_b)" by blast
    from l have "columns df_a = csv_columns csv_a" "columns df_b = csv_columns csv_b"
      by (auto simp: load_snapshot_Inr)
    with p show ?thesis by (simp add: position_in_out_cols)
  qed
  have "\<exists>e. build_report L path_a csv_a path_b csv_b = Inl e"
    if "''position'' \<notin> set (csv_columns csv_a) \<and> ''position'' \<notin> set (csv_columns csv_b)"
  proof (cases "build_report L path_a csv_a path_b csv_b")
    case (Inl e)
    then show ?thesis by blast
  next
    case (Inr res)
    from ret[OF Inr] that show ?thesis by blast
  qed
  with ret show ?thesis by blast
qed

theorem position_required_witness:
  "''position'' \<notin> set (csv_columns snap_no_position)
   \<and> build_report ex_lib ''a_2024-01-01.csv'' snap_no_position ''b_2024-01-04.csv'' snap_no_position
       = Inl (KeyError ''position'')"
proof -
  have p: "''position'' \<notin> set (csv_columns snap_no_position)" by code_simp
  have b: "build_report ex_lib ''a_2024-01-01.csv'' snap_no_position ''b_2024-01-04.csv'' snap_no_position
       = Inl (KeyError ''position'')" by code_simp
  from position_required[of snap_no_position snap_no_position ex_lib "''a_2024-01-01.csv''" "''b_2024-01-04.csv''"] p b
  show ?thesis by simp
qed

subsection \<open>Loading errors\<close>

text \<open>
  Claim C6: loading a snapshot fails exactly when one of the two mandatory columns
  \<^verbatim>\<open>user_id\<close>, \<^verbatim>\<open>xantaken\<close> is absent; the error is a \<^verbatim>\<open>ValueError\<close> whose message
  contains the path of the file and the name of every missing column. When both columns
  are there the load succeeds with one row for every row of the file, and a stat cell that
  is text which does not parse as a number, or that is empty, becomes null.
\<close>

theorem load_snapshot_errors:
  "((\<exists>e. load_snapshot L path df = Inl e) \<longleftrightarrow>
       ''user_id'' \<notin> set (csv_columns df) \<or> ''xantaken'' \<notin> set (csv_columns df))
   \<and> (\<forall>e. load_snapshot L path df = Inl e \<longrightarrow>
         (\<exists>msg. e = ValueError msg \<and> sublist path msg
            \<and> (\<forall>c \<in> {''user_id'', ''xantaken''}. c \<notin> set (csv_columns df) \<longrightarrow> sublist c msg)))
   \<and> (''user_id'' \<in> set (csv_columns df) \<and> ''xantaken'' \<in> set (csv_columns df) \<longrightarrow>
         (\<exists>f. load_snapshot L path df = Inr f
            \<and> columns f = csv_columns df
            \<and> length (rows f) = length (csv_rows df)
            \<and> (\<forall>i < length (csv_rows df).
                 user_id (rows f ! i) = astype_str L (csv_user_id (csv_rows df ! i))
               \<and> xantaken (rows f ! i) = to_numeric L (csv_xantaken (csv_rows df ! i))
               \<and> (\<forall>s. csv_xantaken (csv_rows df ! i) = StrV s \<and> to_numeric_str L s = None
                      \<longrightarrow> xantaken (rows f ! i) = None)
               \<and> (csv_xantaken (csv_rows df ! i) = NaN \<longrightarrow> xantaken (rows f ! i) = None))))"
proof (intro conjI)
  show "(\<exists>e. load_snapshot L path df = Inl e) \<longleftrightarrow>
       ''user_id'' \<notin> set (csv_columns df) \<or> ''xantaken'' \<notin> set (csv_columns df)"
    using missing_columns_Nil[of df] by (auto simp: load_snapshot_def)
next
  show "\<forall>e. load_snapshot L path df = Inl e \<longrightarrow>
         (\<exists>msg. e = ValueError msg \<and> sublist path msg
            \<and> (\<forall>c \<in> {''user_id'', ''xantaken''}. c \<notin> set (csv_columns df) \<longrightarrow> sublist c msg))"
  proof (intro allI impI)
    fix e assume "load_snapshot L path df = Inl e"
    then have e: "e = ValueError (missing_message path df)"
      by (auto simp: load_snapshot_def split: if_splits)
    have "\<forall>c \<in> {''user_id'', ''xantaken''}. c \<notin> set (csv_columns df)
             \<longrightarrow> sublist c (missing_message path df)"
    proof (intro ballI impI)
      fix c assume "c \<in> {''user_id'', ''xantaken''}" "c \<notin> set (csv_columns df)"
      then have "c \<in> set (missing_columns df)"
        by (auto simp: missing_columns_def required_def)
      then show "sublist c (missing_message path df)" by (rule message_names_column)
    qed
    with e message_names_path[of path df]
    show "\<exists>msg. e = ValueError msg \<and> sublist path msg
            \<and> (\<forall>c \<in> {''user_id'', ''xantaken''}. c \<notin> set (csv_columns df) \<longrightarrow> sublist c msg)"
      by blast
  qed
next
  show "''user_id'' \<in> set (csv_columns df) \<and> ''xantaken'' \<in> set (csv_columns df) \<longrightarrow>
         (\<exists>f. load_snapshot L path df = Inr f
            \<and> columns f = csv_columns df
            \<and> length (rows f) = length (csv_rows df)
            \<and> (\<forall>i < length (csv_rows df).
                 user_id (rows f ! i) = astype_str L (csv_user_id (csv_rows df ! i))
               \<and> xantaken (rows f ! i) = to_numeric L (csv_xantaken (csv_rows df ! i))
               \<and> (\<forall>s. csv_xantaken (csv_rows df ! i) = StrV s \<and> to_numeric_str L s = None
                      \<longrightarrow> xantaken (rows f ! i) = None)
               \<and> (csv_xantaken (csv_rows df ! i) = NaN \<longrightarrow> xantaken (rows f ! i) = None)))"
    using missing_columns_Nil[of df]
    by (auto simp: load_snapshot_def normalize_row_def)
qed

theorem load_snapshot_errors_witness:
  "load_snapshot ex_lib ''snaps/old.csv'' snap_no_stat
     = Inl (ValueError ''snaps/old.csv is missing required column(s): user_id, xantaken. Found columns: name, level'')
   \<and> sublist ''snaps/old.csv'' ''snaps/old.csv is missing required column(s): user_id, xantaken. Found columns: name, level''
   \<and> sublist ''user_id'' ''snaps/old.csv is missing required column(s): user_id, xantaken. Found columns: name, level''
   \<and> sublist ''xantaken'' ''snaps/old.csv is missing required column(s): user_id, xantaken. Found columns: name, level''
   \<and> map xantaken (rows (projr (load_snapshot ex_lib ''new.csv'' snap_bad_value))) = [None, Some (Fin 12)]"
proof -
  have l: "load_snapshot ex_lib ''snaps/old.csv'' snap_no_stat
     = Inl (ValueError ''snaps/old.csv is missing required column(s): user_id, xantaken. Found columns: name, level'')"
    by code_simp
  have c: "''user_id'' \<notin> set (csv_columns snap_no_stat)" "''xantaken'' \<notin> set (csv_columns snap_no_stat)"
    by code_simp+
  have v: "map xantaken (rows (projr (load_snapshot ex_lib ''new.csv'' snap_bad_value))) = [None, Some (Fin 12)]"
    by code_simp
  from load_snapshot_errors[of ex_lib "''snaps/old.csv''" snap_no_stat] l c v
  show ?thesis by auto
qed

subsection \<open>The reference date of a table whose date cell is not a time\<close>

text \<open>
  Claim C7 asks that a first date cell which does not parse as a date fall through to
  the file name. The first cell that is not null of the example export is the text
  \<^verbatim>\<open>NaT\<close>, for which \<^verbatim>\<open>pd.to_datetime(...).date()\<close> returns \<^verbatim>\<open>NaT\<close> without raising. The
  resolver returns \<^verbatim>\<open>NaT\<close>: not a date, not null, and not the date 2024-01-01 that the
  file name holds. \<^verbatim>\<open>build_report\<close> with a second snapshot whose date resolves then raises
  \<^verbatim>\<open>TypeError\<close> on comparing the two.
\<close>

theorem resolve_date_returns_nat:
  "dropna (map export_date (rows frame_nat)) = [StrV ''NaT'', StrV ''2024-01-01'']
   \<and> to_datetime ex_lib (StrV ''NaT'') = Inr NaT
   \<and> date_from_filename ''exports/faction_22631_xantaken_2024-01-01.csv''
       = Inr (Some (Date jan01))
   \<and> parse_date_from_df_or_filename ex_lib frame_nat ''exports/faction_22631_xantaken_2024-01-01.csv''
       = Inr (Some NaT)
   \<and> build_report ex_lib ''exports/faction_22631_xantaken_2024-01-01.csv'' snap_nat ''jan04.csv'' snap_jan04
       = Inl TypeError"
  by (intro conjI; code_simp)

subsection \<open>The credential of a request\<close>

text \<open>
  Claim C9 asks that the credential sent with a request be the \<^verbatim>\<open>api_key\<close> argument of
  \<^verbatim>\<open>torn_get\<close>. The headers are the same for two callers with different keys: the
  \<^verbatim>\<open>Authorization\<close> entry is a fixed string.
\<close>

theorem torn_get_headers_ignore_api_key:
  "map_of (torn_get_headers ''KEY-OF-CALLER-A'') ''Authorization'' = Some ''ApiKey xOZ42wvjt01rhnl9''
   \<and> map_of (torn_get_headers ''KEY-OF-CALLER-B'') ''Authorization'' = Some ''ApiKey xOZ42wvjt01rhnl9''
   \<and> torn_get_headers ''KEY-OF-CALLER-A'' = torn_get_headers ''KEY-OF-CALLER-B''"
  by (simp add: torn_get_headers_def)

subsection \<open>Swapping the two files\<close>

text \<open>
  Claim C2 says that the report has the same rows whichever file comes first, with
  \<^verbatim>\<open>xantaken_a\<close> holding the value of the chronologically earlier snapshot. With the two
  example snapshots both orders give the same start date, end date and days between, but
  when the later export is passed first, the row of member 1 has the later value 15 as
  \<^verbatim>\<open>xantaken_a\<close> and the earlier value 3 as \<^verbatim>\<open>xantaken_b\<close>, and that row is not a row of the
  report for the other order.
\<close>

theorem swap_counterexample:
  "build_report ex_lib ''jan01.csv'' snap_jan01 ''jan04.csv'' snap_jan04
     = Inr (rep_jan, Some (Date jan01), Some (Date jan04), Some (Days 3))
   \<and> build_report ex_lib ''jan04.csv'' snap_jan04 ''jan01.csv'' snap_jan01
     = Inr (rep_swapped, Some (Date jan01), Some (Date jan04), Some (Days 3))
   \<and> r_user_id (report_rows rep_jan ! 1) = ''1''
   \<and> xantaken_a (report_rows rep_jan ! 1) = Some (Fin 3)
   \<and> xantaken_b (report_rows rep_jan ! 1) = Some (Fin 15)
   \<and> r_user_id (report_rows rep_swapped ! 1) = ''1''
   \<and> xantaken_a (report_rows rep_swapped ! 1) = Some (Fin 15)
   \<and> xantaken_b (report_rows rep_swapped ! 1) = Some (Fin 3)
   \<and> report_rows rep_swapped ! 1 \<notin> set (report_rows rep_jan)"
proof -
  have v: "r_user_id (report_rows rep_jan ! 1) = ''1''"
    "xantaken_a (report_rows rep_jan ! 1) = Some (Fin 3)"
    "xantaken_b (report_rows rep_jan ! 1) = Some (Fin 15)"
    unfolding rep_jan_def by code_simp+
  have w: "r_user_id (report_rows rep_swapped ! 1) = ''1''"
    "xantaken_a (report_rows rep_swapped ! 1) = Some (Fin 15)"
    "xantaken_b (report_rows rep_swapped ! 1) = Some (Fin 3)"
    unfolding rep_swapped_def by code_simp+
  have n: "report_rows rep_swapped ! 1 \<notin> set (report_rows rep_jan)"
    unfolding rep_swapped_def rep_jan_def by code_simp
  from build_jan build_swapped v w n show ?thesis by simp
qed

text \<open>
  C2 as the code has it, for two files that \<^verbatim>\<open>build_report\<close> accepts in both orders. When
  both reference dates are dates, both orders give the same start date, end date and
  days between. The labels follow the order of the arguments: in every row of the report
  \<^verbatim>\<open>xantaken_a\<close> is the stat of that member in the first file (null when the first file
  has no such member) and \<^verbatim>\<open>xantaken_b\<close> the stat in the second file, so that the report
  for the other order has the same members with the two columns exchanged.
\<close>

theorem swap_exchanges_labels:
  assumes "build_report L path_a csv_a path_b csv_b = Inr (rep, start_date, end_date, days_between)"
    and "build_report L path_b csv_b path_a csv_a = Inr (rep', start_date', end_date', days_between')"
  shows "(\<forall>n. days_between = Some (Days n) \<longrightarrow>
            start_date' = start_date \<and> end_date' = end_date \<and> days_between' = days_between)
     \<and> (\<lambda>r. (r_user_id r, xantaken_a r, xantaken_b r)) ` set (report_rows rep')
         = (\<lambda>r. (r_user_id r, xantaken_b r, xantaken_a r)) ` set (report_rows rep)
     \<and> (\<forall>r \<in> set (report_rows rep).
          ((\<exists>c \<in> set (csv_rows csv_a). astype_str L (csv_user_id c) = r_user_id r
                 \<and> xantaken_a r = to_numeric L (csv_xantaken c))
           \<or> ((\<forall>c \<in> set (csv_rows csv_a). astype_str L (csv_user_id c) \<noteq> r_user_id r)
                 \<and> xantaken_a r = None))
        \<and> ((\<exists>c \<in> set (csv_rows csv_b). astype_str L (csv_user_id c) = r_user_id r
                 \<and> xantaken_b r = to_numeric L (csv_xantaken c))
           \<or> ((\<forall>c \<in> set (csv_rows csv_b). astype_str L (csv_user_id c) \<noteq> r_user_id r)
                 \<and> xantaken_b r = None)))"
proof -
  from build_report_InrD[OF assms(1)] obtain df_a df_b date_a date_b where
    la: "load_snapshot L path_a csv_a = Inr df_a" and lb: "load_snapshot L path_b csv_b = Inr df_b"
    and pa: "parse_date_from_df_or_filename L df_a path_a = Inr date_a"
    and pb: "parse_date_from_df_or_filename L df_b path_b = Inr date_b"
    and ds: "date_span date_a date_b = Inr (start_date, end_date, days_between)"
    and rr: "report_rows rep = sort_values (merged_rows df_a df_b days_between)" by blast
  from build_report_InrD[OF assms(2)] la lb pa pb have
    ds': "date_span date_b date_a = Inr (start_date', end_date', days_between')"
    and rr': "report_rows rep' = sort_values (merged_rows df_b df_a days_between')" by auto
  have c1: "\<forall>n. days_between = Some (Days n) \<longrightarrow>
            start_date' = start_date \<and> end_date' = end_date \<and> days_between' = days_between"
  proof (intro allI impI)
    fix n assume d: "days_between = Some (Days n)"
    from date_span_swap[OF ds[unfolded d] ds']
    show "start_date' = start_date \<and> end_date' = end_date \<and> days_between' = days_between"
      by (simp add: d)
  qed
  have c2: "(\<lambda>r. (r_user_id r, xantaken_a r, xantaken_b r)) ` set (report_rows rep')
         = (\<lambda>r. (r_user_id r, xantaken_b r, xantaken_a r)) ` set (report_rows rep)"
  proof (intro set_eqI iffI)
    fix t assume "t \<in> (\<lambda>r. (r_user_id r, xantaken_a r, xantaken_b r)) ` set (report_rows rep')"
    then obtain r where r: "r \<in> set (merged_rows df_b df_a days_between')"
      and t: "t = (r_user_id r, xantaken_a r, xantaken_b r)"
      unfolding rr' set_sort_values by blast
    from r obtain k y x where j: "joins df_b df_a k y x"
      and e: "r = joined_row df_b df_a days_between' (k, y, x)"
      unfolding in_merged_rows by blast
    let ?s = "joined_row df_a df_b days_between (k, x, y)"
    from j have "joins df_a df_b k x y" by (simp only: joins_swap[of df_b df_a k y x])
    then have "?s \<in> set (merged_rows df_a df_b days_between)"
      unfolding in_merged_rows by blast
    moreover have "t = (r_user_id ?s, xantaken_b ?s, xantaken_a ?s)"
      unfolding t e by (simp add: joined_row_sides)
    ultimately show "t \<in> (\<lambda>r. (r_user_id r, xantaken_b r, xantaken_a r)) ` set (report_rows rep)"
      unfolding rr set_sort_values by blast
  next
    fix t assume "t \<in> (\<lambda>r. (r_user_id r, xantaken_b r, xantaken_a r)) ` set (report_rows rep)"
    then obtain r where r: "r \<in> set (merged_rows df_a df_b days_between)"
      and t: "t = (r_user_id r, xantaken_b r, xantaken_a r)"
      unfolding rr set_sort_values by blast
    from r obtain k x y where j: "joins df_a df_b k x y"
      and e: "r = joined_row df_a df_b days_between (k, x, y)"
      unfolding in_merged_rows by blast
    let ?s = "joined_row df_b df_a days_between' (k, y, x)"
    from j have "joins df_b df_a k y x" by (simp only: joins_swap[of df_b df_a k y x])
    then have "?s \<in> set (merged_rows df_b df_a days_between')"
      unfolding in_merged_rows by blast
    moreover have "t = (r_user_id ?s, xantaken_a ?s, xantaken_b ?s)"
      unfolding t e by (simp add: joined_row_sides)
    ultimately show "t \<in> (\<lambda>r. (r_user_id r, xantaken_a r, xantaken_b r)) ` set (report_rows rep')"
      unfolding rr' set_sort_values by blast
  qed
  have c3: "\<forall>r \<in> set (report_rows rep).
          ((\<exists>c \<in> set (csv_rows csv_a). astype_str L (csv_user_id c) = r_user_id r
                 \<and> xantaken_a r = to_numeric L (csv_xantaken c))
           \<or> ((\<forall>c \<in> set (csv_rows csv_a). astype_str L (csv_user_id c) \<noteq> r_user_id r)
                 \<and> xantaken_a r = None))
        \<and> ((\<exists>c \<in> set (csv_rows csv_b). astype_str L (csv_user_id c) = r_user_id r
                 \<and> xantaken_b r = to_numeric L (csv_xantaken c))
           \<or> ((\<forall>c \<in> set (csv_rows csv_b). astype_str L (csv_user_id c) \<noteq> r_user_id r)
                 \<and> xantaken_b r = None))"
  proof
    fix r assume "r \<in> set (report_rows rep)"
    then have "r \<in> set (merged_rows df_a df_b days_between)"
      unfolding rr set_sort_values .
    then obtain k x y where j: "joins df_a df_b k x y"
      and e: "r = joined_row df_a df_b days_between (k, x, y)"
      unfolding in_merged_rows by blast
    have ea: "xantaken_a r = side_value df_a ''xantaken'' xantaken x"
      and eb: "xantaken_b r = side_value df_b ''xantaken'' xantaken y"
      and ek: "r_user_id r = k"
      unfolding e by (simp_all add: joined_row_sides)
    show "((\<exists>c \<in> set (csv_rows csv_a). astype_str L (csv_user_id c) = r_user_id r
                 \<and> xantaken_a r = to_numeric L (csv_xantaken c))
           \<or> ((\<forall>c \<in> set (csv_rows csv_a). astype_str L (csv_user_id c) \<noteq> r_user_id r)
                 \<and> xantaken_a r = None))
        \<and> ((\<exists>c \<in> set (csv_rows csv_b). astype_str L (csv_user_id c) = r_user_id r
                 \<and> xantaken_b r = to_numeric L (csv_xantaken c))
           \<or> ((\<forall>c \<in> set (csv_rows csv_b). astype_str L (csv_user_id c) \<noteq> r_user_id r)
                 \<and> xantaken_b r = None))"
      unfolding ea eb ek
      using side_label[OF la joins_left[OF j]] side_label[OF lb joins_right[OF j]]
      by (rule conjI)
  qed
  show ?thesis by (rule conjI[OF c1 conjI[OF c2 c3]])
qed

theorem swap_exchanges_labels_witness:
  "build_report ex_lib ''jan01.csv'' snap_jan01 ''jan04.csv'' snap_jan04
     = Inr (rep_jan, Some (Date jan01), Some (Date jan04), Some (Days 3))
   \<and> build_report ex_lib ''jan04.csv'' snap_jan04 ''jan01.csv'' snap_jan01
     = Inr (rep_swapped, Some (Date jan01), Some (Date jan04), Some (Days 3))
   \<and> (\<lambda>r. (r_user_id r, xantaken_a r, xantaken_b r)) ` set (report_rows rep_swapped)
       = (\<lambda>r. (r_user_id r, xantaken_b r, xantaken_a r)) ` set (report_rows rep_jan)"
  using swap_exchanges_labels[OF build_jan build_swapped] build_jan build_swapped
  by blast

subsection \<open>Completeness of the outer join\<close>

text \<open>
  Claim C8: when no identifier occurs twice in a snapshot, every identifier of either
  snapshot is the identifier of exactly one row of the report, every row of the report
  has an identifier of one of the snapshots, and a row whose member is missing from one
  snapshot has null in the columns that come from that snapshot alone.
\<close>

theorem outer_join_complete:
  assumes "build_report L path_a csv_a path_b csv_b = Inr (rep, start_date, end_date, days_between)"
    and "load_snapshot L path_a csv_a = Inr df_a"
    and "load_snapshot L path_b csv_b = Inr df_b"
    and "distinct (map user_id (rows df_a))"
    and "distinct (map user_id (rows df_b))"
  shows "(\<forall>k \<in> user_id ` set (rows df_a) \<union> user_id ` set (rows df_b).
            length (filter (\<lambda>r. r_user_id r = k) (report_rows rep)) = 1)
     \<and> (\<forall>r \<in> set (report_rows rep).
            r_user_id r \<in> user_id ` set (rows df_a) \<union> user_id ` set (rows df_b))
     \<and> (\<forall>r \<in> set (report_rows rep). r_user_id r \<notin> user_id ` set (rows df_b) \<longrightarrow>
            xantaken_b r = None \<and> name_b r = None \<and> position_b r = None \<and> level_b r = None)
     \<and> (\<forall>r \<in> set (report_rows rep). r_user_id r \<notin> user_id ` set (rows df_a) \<longrightarrow>
            xantaken_a r = None \<and> name_a r = None \<and> position_a r = None \<and> level_a r = None)"
proof -
  from build_report_InrD[OF assms(1)] assms(2,3)
  have rr: "report_rows rep = sort_values (merged_rows df_a df_b days_between)" by auto
  have c1: "\<forall>k \<in> user_id ` set (rows df_a) \<union> user_id ` set (rows df_b).
            length (filter (\<lambda>r. r_user_id r = k) (report_rows rep)) = 1"
  proof
    fix k assume k: "k \<in> user_id ` set (rows df_a) \<union> user_id ` set (rows df_b)"
    have "length (merge_key df_a df_b k) = 1"
      by (rule length_merge_key[OF assms(4,5) k])
    then show "length (filter (\<lambda>r. r_user_id r = k) (report_rows rep)) = 1"
      by (simp add: rr length_filter_report)
  qed
  have c2: "\<forall>r \<in> set (report_rows rep).
            r_user_id r \<in> user_id ` set (rows df_a) \<union> user_id ` set (rows df_b)"
  proof
    fix r assume "r \<in> set (report_rows rep)"
    from report_row_joins[OF assms(1-3) this] obtain k x y where
      "joins df_a df_b k x y" "r = joined_row df_a df_b days_between (k, x, y)" by blast
    then show "r_user_id r \<in> user_id ` set (rows df_a) \<union> user_id ` set (rows df_b)"
      using joins_key[of df_a df_b k x y] by (simp add: joined_row_sides)
  qed
  have c3: "\<forall>r \<in> set (report_rows rep). r_user_id r \<notin> user_id ` set (rows df_b) \<longrightarrow>
            xantaken_b r = None \<and> name_b r = None \<and> position_b r = None \<and> level_b r = None"
  proof (intro ballI impI)
    fix r assume r: "r \<in> set (report_rows rep)" and n: "r_user_id r \<notin> user_id ` set (rows df_b)"
    from report_row_joins[OF assms(1-3) r] obtain k x y where
      j: "joins df_a df_b k x y" and e: "r = joined_row df_a df_b days_between (k, x, y)" by blast
    from e n have "k \<notin> user_id ` set (rows df_b)" by (simp add: joined_row_sides)
    with j have "y = None" by (rule joins_only_left)
    with e show "xantaken_b r = None \<and> name_b r = None \<and> position_b r = None \<and> level_b r = None"
      by (simp add: joined_row_sides side_value_None)
  qed
  have c4: "\<forall>r \<in> set (report_rows rep). r_user_id r \<notin> user_id ` set (rows df_a) \<longrightarrow>
            xantaken_a r = None \<and> name_a r = None \<and> position_a r = None \<and> level_a r = None"
  proof (intro ballI impI)
    fix r assume r: "r \<in> set (report_rows rep)" and n: "r_user_id r \<notin> user_id ` set (rows df_a)"
    from report_row_joins[OF assms(1-3) r] obtain k x y where
      j: "joins df_a df_b k x y" and e: "r = joined_row df_a df_b days_between (k, x, y)" by blast
    from e n have "k \<notin> user_id ` set (rows df_a)" by (simp add: joined_row_sides)
    with j have "x = None" by (rule joins_only_right)
    with e show "xantaken_a r = None \<and> name_a r = None \<and> position_a r = None \<and> level_a r = None"
      by (simp add: joined_row_sides side_value_None)
  qed
  show ?thesis by (rule conjI[OF c1 conjI[OF c2 conjI[OF c3 c4]]])
qed

theorem outer_join_complete_witness:
  "build_report ex_lib ''jan01.csv'' snap_jan01 ''jan04.csv'' snap_jan04
     = Inr (rep_jan, Some (Date jan01), Some (Date jan04), Some (Days 3))
   \<and> load_snapshot ex_lib ''jan01.csv'' snap_jan01 = Inr frame_jan01
   \<and> load_snapshot ex_lib ''jan04.csv'' snap_jan04 = Inr frame_jan04
   \<and> distinct (map user_id (rows frame_jan01))
   \<and> distinct (map user_id (rows frame_jan04))
   \<and> ''2'' \<in> user_id ` set (rows frame_jan01) \<union> user_id ` set (rows frame_jan04)
   \<and> length (filter (\<lambda>r. r_user_id r = ''2'') (report_rows rep_jan)) = 1
   \<and> map r_user_id (report_rows rep_jan) = [''3'', ''1'', ''2'']
   \<and> xantaken_b (report_rows rep_jan ! 2) = None
   \<and> name_b (report_rows rep_jan ! 2) = None"
proof -
  have da: "distinct (map user_id (rows frame_jan01))" by code_simp
  have db: "distinct (map user_id (rows frame_jan04))" by code_simp
  have m: "''2'' \<in> user_id ` set (rows frame_jan01) \<union> user_id ` set (rows frame_jan04)"
    by code_simp
  have ids: "map r_user_id (report_rows rep_jan) = [''3'', ''1'', ''2'']"
    unfolding rep_jan_def by code_simp
  have v: "xantaken_b (report_rows rep_jan ! 2) = None" "name_b (report_rows rep_jan ! 2) = None"
    unfolding rep_jan_def by code_simp+
  note t = outer_join_complete[OF build_jan load_jan01 load_jan04 da db]
  from t m have "length (filter (\<lambda>r. r_user_id r = ''2'') (report_rows rep_jan)) = 1"
    by blast
  with build_jan load_jan01 load_jan04 da db m ids v show ?thesis by simp
qed

subsection \<open>The order of the report\<close>

text \<open>
  Claim C5: in the report a row with a null position comes after every row with a
  position, and positions ascend; among rows of equal position a null difference comes
  last and differences descend; among rows of equal position and difference the
  identifiers ascend; and the sort is stable: rows with the same three keys keep the order
  that the join gave them.
\<close>

theorem report_sorted:
  assumes "build_report L path_a csv_a path_b csv_b = Inr (rep, start_date, end_date, days_between)"
    and "load_snapshot L path_a csv_a = Inr df_a"
    and "load_snapshot L path_b csv_b = Inr df_b"
    and "i < j" and "j < length (report_rows rep)"
  shows "(r_position (report_rows rep ! i) = None \<longrightarrow> r_position (report_rows rep ! j) = None)
     \<and> (\<forall>p q. r_position (report_rows rep ! i) = Some p \<and> r_position (report_rows rep ! j) = Some q
            \<longrightarrow> p \<le> q)
     \<and> (r_position (report_rows rep ! i) = r_position (report_rows rep ! j) \<longrightarrow>
          (diff_xantaken (report_rows rep ! i) = None \<longrightarrow> diff_xantaken (report_rows rep ! j) = None)
          \<and> (\<forall>u v. diff_xantaken (report_rows rep ! i) = Some u
                   \<and> diff_xantaken (report_rows rep ! j) = Some v \<longrightarrow> f64_le v u))
     \<and> (r_position (report_rows rep ! i) = r_position (report_rows rep ! j)
          \<and> diff_xantaken (report_rows rep ! i) = diff_xantaken (report_rows rep ! j) \<longrightarrow>
          r_user_id (report_rows rep ! i) \<le> r_user_id (report_rows rep ! j))
     \<and> (\<forall>k. filter (\<lambda>r. sort_values_key r = k) (report_rows rep)
            = filter (\<lambda>r. sort_values_key r = k) (merged_rows df_a df_b days_between))"
proof -
  from build_report_InrD[OF assms(1)] assms(2,3)
  have rr: "report_rows rep = sort_values (merged_rows df_a df_b days_between)" by auto
  have le: "sort_values_key (report_rows rep ! i) \<le> sort_values_key (report_rows rep ! j)"
    using assms(4,5) unfolding rr by (rule sort_values_sorted)
  have st: "\<forall>k. filter (\<lambda>r. sort_values_key r = k) (report_rows rep)
            = filter (\<lambda>r. sort_values_key r = k) (merged_rows df_a df_b days_between)"
    unfolding rr sort_values_def by (simp add: sort_key_stable)
  from key_le_cases[OF le] st show ?thesis by blast
qed

theorem report_sorted_witness:
  "build_report ex_lib ''jan01.csv'' snap_jan01 ''jan04.csv'' snap_jan04
     = Inr (rep_jan, Some (Date jan01), Some (Date jan04), Some (Days 3))
   \<and> load_snapshot ex_lib ''jan01.csv'' snap_jan01 = Inr frame_jan01
   \<and> load_snapshot ex_lib ''jan04.csv'' snap_jan04 = Inr frame_jan04
   \<and> (0::nat) < 1 \<and> 1 < length (report_rows rep_jan)
   \<and> r_position (report_rows rep_jan ! 0) = Some ''Leader''
   \<and> r_position (report_rows rep_jan ! 1) = Some ''Member''
   \<and> ''Leader'' \<le> ''Member''"
proof -
  have l: "1 < length (report_rows rep_jan)" unfolding rep_jan_def by code_simp
  have v: "r_position (report_rows rep_jan ! 0) = Some ''Leader''"
    "r_position (report_rows rep_jan ! 1) = Some ''Member''"
    unfolding rep_jan_def by code_simp+
  have z: "(0::nat) < 1" by simp
  note t = report_sorted[OF build_jan load_jan01 load_jan04 z l]
  from t v have "''Leader'' \<le> ''Member''" by blast
  with build_jan load_jan01 load_jan04 l v show ?thesis by simp
qed

end
